theory Spec2Isabelle
  imports Main "HOL-Library.AList"
begin

section \<open>Python values, exceptions and the Flow Entity\<close>

text \<open>
  The values that flow through \<^verbatim>\<open>openml/flows/flow.py\<close>: \<^verbatim>\<open>None\<close>, strings, integers, lists
  and dictionaries. Every dictionary of the model is an \<^verbatim>\<open>OrderedDict\<close> (what \<^verbatim>\<open>_to_dict\<close>
  builds and what \<^verbatim>\<open>xmltodict.parse\<close> returns), kept as the list of its items in insertion
  order; it answers \<^verbatim>\<open>isinstance(x, dict)\<close> with True. On these values Python's \<^verbatim>\<open>==\<close> is
  equality of the terms (two OrderedDicts are equal when they hold the same items in the same
  order). Values outside the model are a plain \<^verbatim>\<open>dict\<close>, whose \<^verbatim>\<open>==\<close> ignores the order of
  the items, and a float NaN, which is unequal to itself.
\<close>

datatype pyval =
    PNone
  | PStr string
  | PInt int
  | PList "pyval list"
  | PDict "(pyval \<times> pyval) list"

text \<open>The exception classes the module raises or lets through.\<close>

datatype exception = TypeError | ValueError | KeyError | OtherError

text \<open>
  One constructor per \<^verbatim>\<open>raise\<close> of the module and per failing primitive it relies on; the
  payload is what the message is formatted from.
\<close>

datatype error =
    NotOrderedDict string
  | OnlyInParameters "pyval set"
  | OnlyInParametersMetaInfo "pyval set"
  | ParameterNameNotString pyval
  | ParameterValueNotString pyval
  | MissingKey pyval
  | NotSubscriptable pyval
  | NotIterable pyval
  | Unhashable pyval
  | IntInvalidLiteral string
  | IntBadArgument pyval
  | MissingArguments "string list"
  | CannotUnpack
  | NameNotNonEmptyString
  | VersionNotNonEmptyString
  | ApiCallFailed string
  | CollaboratorError string

fun exception_of :: "error \<Rightarrow> exception" where
  "exception_of (NotOrderedDict _) = TypeError"
| "exception_of (OnlyInParameters _) = ValueError"
| "exception_of (OnlyInParametersMetaInfo _) = ValueError"
| "exception_of (ParameterNameNotString _) = ValueError"
| "exception_of (ParameterValueNotString _) = ValueError"
| "exception_of (MissingKey _) = KeyError"
| "exception_of (NotSubscriptable _) = TypeError"
| "exception_of (NotIterable _) = TypeError"
| "exception_of (Unhashable _) = TypeError"
| "exception_of (IntInvalidLiteral _) = ValueError"
| "exception_of (IntBadArgument _) = TypeError"
| "exception_of (MissingArguments _) = TypeError"
| "exception_of CannotUnpack = TypeError"
| "exception_of NameNotNonEmptyString = ValueError"
| "exception_of VersionNotNonEmptyString = ValueError"
| "exception_of (ApiCallFailed _) = ValueError"
| "exception_of (CollaboratorError _) = OtherError"

text \<open>
  An \<^verbatim>\<open>OpenMLFlow\<close> object: its seventeen attributes, in the order of the parameters of
  \<^verbatim>\<open>__init__\<close>. The three containers are OrderedDicts (the constructor refuses anything
  else), kept as item lists; the values of \<^verbatim>\<open>components\<close> are flows.
\<close>

datatype flow = OpenMLFlow
  (name: pyval)
  (description: pyval)
  (model: pyval)
  (components: "(pyval \<times> flow) list")
  (parameters: "(pyval \<times> pyval) list")
  (parameters_meta_info: "(pyval \<times> pyval) list")
  (external_version: pyval)
  (tags: pyval)
  (language: pyval)
  (dependencies: pyval)
  (binary_url: pyval)
  (binary_format: pyval)
  (binary_md5: pyval)
  (uploader: pyval)
  (upload_date: pyval)
  (flow_id: pyval)
  (version: pyval)

text \<open>
  What a caller may pass for \<^verbatim>\<open>components\<close>, \<^verbatim>\<open>parameters\<close> and
  \<^verbatim>\<open>parameters_meta_info\<close>: an OrderedDict, or an object of any other type.
\<close>

datatype 'v arg = OrderedDict "(pyval \<times> 'v) list" | NotAnOrderedDict

subsection \<open>The constructor\<close>

text \<open>
  \<^verbatim>\<open>OpenMLFlow.__init__\<close> (lines 76-120): the three \<^verbatim>\<open>isinstance\<close> checks in the order of
  the loop, then the two key-set checks, then the assignments
  (\<^verbatim>\<open>self.tags = tags if tags is not None else []\<close>).
\<close>

definition init ::
  "pyval \<Rightarrow> pyval \<Rightarrow> pyval \<Rightarrow> flow arg \<Rightarrow> pyval arg \<Rightarrow> pyval arg \<Rightarrow> pyval \<Rightarrow> pyval \<Rightarrow> pyval
   \<Rightarrow> pyval \<Rightarrow> pyval \<Rightarrow> pyval \<Rightarrow> pyval \<Rightarrow> pyval \<Rightarrow> pyval \<Rightarrow> pyval \<Rightarrow> pyval \<Rightarrow> error + flow" where
  "init name' description' model' components' parameters' parameters_meta_info'
        external_version' tags' language' dependencies' binary_url' binary_format'
        binary_md5' uploader' upload_date' flow_id' version' =
     (case components' of
        NotAnOrderedDict \<Rightarrow> Inl (NotOrderedDict ''components'')
      | OrderedDict cs \<Rightarrow>
     (case parameters' of
        NotAnOrderedDict \<Rightarrow> Inl (NotOrderedDict ''parameters'')
      | OrderedDict ps \<Rightarrow>
     (case parameters_meta_info' of
        NotAnOrderedDict \<Rightarrow> Inl (NotOrderedDict ''parameters_meta_info'')
      | OrderedDict ms \<Rightarrow>
        (let keys_parameters = set (map fst ps);
             keys_parameters_meta_info = set (map fst ms)
         in if card (keys_parameters - keys_parameters_meta_info) > 0
            then Inl (OnlyInParameters (keys_parameters - keys_parameters_meta_info))
            else if card (keys_parameters_meta_info - keys_parameters) > 0
            then Inl (OnlyInParametersMetaInfo (keys_parameters_meta_info - keys_parameters))
            else Inr (OpenMLFlow name' description' model' cs ps ms external_version'
                        (if tags' \<noteq> PNone then tags' else PList [])
                        language' dependencies' binary_url' binary_format' binary_md5'
                        uploader' upload_date' flow_id' version')))))"

subsection \<open>Primitives on values\<close>

text \<open>\<^verbatim>\<open>d[k]\<close>, \<^verbatim>\<open>d.get(k)\<close> and \<^verbatim>\<open>k in d\<close> on the items of a dictionary.\<close>

definition lookup :: "(pyval \<times> pyval) list \<Rightarrow> pyval \<Rightarrow> error + pyval" where
  "lookup d k = (case map_of d k of None \<Rightarrow> Inl (MissingKey k) | Some v \<Rightarrow> Inr v)"

definition get :: "(pyval \<times> pyval) list \<Rightarrow> pyval \<Rightarrow> pyval" where
  "get d k = (case map_of d k of None \<Rightarrow> PNone | Some v \<Rightarrow> v)"

definition contains :: "(pyval \<times> pyval) list \<Rightarrow> pyval \<Rightarrow> bool" where
  "contains d k = (map_of d k \<noteq> None)"

text \<open>\<^verbatim>\<open>x[k]\<close> with a string key: only a dictionary has such an item.\<close>

fun getitem :: "pyval \<Rightarrow> pyval \<Rightarrow> error + pyval" where
  "getitem (PDict d) k = lookup d k"
| "getitem x k = Inl (NotSubscriptable x)"

fun is_string :: "pyval \<Rightarrow> bool" where
  "is_string (PStr _) = True"
| "is_string _ = False"

fun is_dict :: "pyval \<Rightarrow> bool" where
  "is_dict (PDict _) = True"
| "is_dict _ = False"

fun hashable :: "pyval \<Rightarrow> bool" where
  "hashable (PList _) = False"
| "hashable (PDict _) = False"
| "hashable _ = True"

text \<open>
  \<^verbatim>\<open>for x in v\<close>: a list yields its elements, a string its characters (as strings of length
  one), a dictionary its keys; \<^verbatim>\<open>None\<close> and integers are not iterable.
\<close>

fun iterate :: "pyval \<Rightarrow> error + pyval list" where
  "iterate (PList xs) = Inr xs"
| "iterate (PStr s) = Inr (map (\<lambda>c. PStr [c]) s)"
| "iterate (PDict d) = Inr (map fst d)"
| "iterate x = Inl (NotIterable x)"

text \<open>
  \<^verbatim>\<open>int(x)\<close>: an integer is returned as it is; a string that is no numeral raises
  ValueError, and \<^verbatim>\<open>None\<close>, a list or a dictionary raises TypeError. The characters of a
  string are the code points below 256. A numeral is, between white space that is stripped,
  an optional sign and decimal digits, with single underscores allowed between two digits.
  Below 256 the white space of Python is the six ASCII characters, the four separators
  \<^verbatim>\<open>\x1c\<close> to \<^verbatim>\<open>\x1f\<close>, \<^verbatim>\<open>\x85\<close> and \<^verbatim>\<open>\xa0\<close>, and the only decimal digits are \<^verbatim>\<open>0\<close>
  to \<^verbatim>\<open>9\<close>.
\<close>

definition digit :: "char \<Rightarrow> nat option" where
  "digit c = map_of (zip ''0123456789'' [0, 1, 2, 3, 4, 5, 6, 7, 8, 9]) c"

text \<open>The digits after the first one: an underscore must be followed by a digit.\<close>

fun digits_value :: "nat \<Rightarrow> string \<Rightarrow> nat option" where
  "digits_value acc [] = Some acc"
| "digits_value acc [c] =
     (case digit c of None \<Rightarrow> None | Some d \<Rightarrow> Some (10 * acc + d))"
| "digits_value acc (c # c' # cs) =
     (if c = CHR ''_''
      then (case digit c' of None \<Rightarrow> None | Some d \<Rightarrow> digits_value (10 * acc + d) cs)
      else (case digit c of None \<Rightarrow> None | Some d \<Rightarrow> digits_value (10 * acc + d) (c' # cs)))"

definition nat_of_digits :: "string \<Rightarrow> nat option" where
  "nat_of_digits s =
     (case s of
        [] \<Rightarrow> None
      | c # cs \<Rightarrow> (case digit c of None \<Rightarrow> None | Some d \<Rightarrow> digits_value d cs))"

definition is_space :: "char \<Rightarrow> bool" where
  "is_space c =
     (c \<in> set [CHR '' '', CHR 0x09, CHR 0x0A, CHR 0x0B, CHR 0x0C, CHR 0x0D,
                CHR 0x1C, CHR 0x1D, CHR 0x1E, CHR 0x1F, CHR 0x85, CHR 0xA0])"

definition strip :: "string \<Rightarrow> string" where
  "strip s = rev (dropWhile is_space (rev (dropWhile is_space s)))"

definition int_of_string :: "string \<Rightarrow> int option" where
  "int_of_string s =
     (case strip s of
        [] \<Rightarrow> None
      | c # r \<Rightarrow>
          if c = CHR ''-'' then map_option (\<lambda>n. - int n) (nat_of_digits r)
          else if c = CHR ''+'' then map_option int (nat_of_digits r)
          else map_option int (nat_of_digits (c # r)))"

fun py_int :: "pyval \<Rightarrow> error + int" where
  "py_int (PInt n) = Inr n"
| "py_int (PStr s) = (case int_of_string s of None \<Rightarrow> Inl (IntInvalidLiteral s) | Some n \<Rightarrow> Inr n)"
| "py_int x = Inl (IntBadArgument x)"

section \<open>Serialization\<close>

text \<open>
  \<^verbatim>\<open>OpenMLFlow._get_name\<close> (lines 414-416).
\<close>

definition get_name :: "flow \<Rightarrow> pyval" where
  "get_name self = name self"

text \<open>
  \<^verbatim>\<open>if v is not None: d[k] = v\<close> on a key that \<^verbatim>\<open>d\<close> does not hold yet: the item is
  appended. Every key of the dictionaries that \<^verbatim>\<open>_to_dict\<close> builds is assigned once, so
  each assignment appends.
\<close>

definition set_if_not_None :: "string \<Rightarrow> pyval \<Rightarrow> (pyval \<times> pyval) list" where
  "set_if_not_None k v = (if v \<noteq> PNone then [(PStr k, v)] else [])"

text \<open>
  The check of lines 188-196 over \<^verbatim>\<open>param_dict.items()\<close>: the first item whose key, or
  else whose value, is neither \<^verbatim>\<open>None\<close> nor a string raises.
\<close>

fun check_items :: "(pyval \<times> pyval) list \<Rightarrow> error option" where
  "check_items [] = None"
| "check_items ((key', v) # rest) =
     (if key' \<noteq> PNone \<and> \<not> is_string key' then Some (ParameterNameNotString key')
      else if v \<noteq> PNone \<and> \<not> is_string v then Some (ParameterValueNotString v)
      else check_items rest)"

text \<open>
  The body of the loop of lines 175-198 for one key of \<^verbatim>\<open>self.parameters\<close> and the value
  stored under it: the meta information is looked up
  (\<^verbatim>\<open>self.parameters_meta_info[key]['data_type']\<close> first), the block is built and checked.
\<close>

definition param_dict ::
  "(pyval \<times> pyval) list \<Rightarrow> pyval \<Rightarrow> pyval \<Rightarrow> error + pyval" where
  "param_dict meta key default_value =
     (case lookup meta key of
        Inl e \<Rightarrow> Inl e
      | Inr info \<Rightarrow>
     (case getitem info (PStr ''data_type'') of
        Inl e \<Rightarrow> Inl e
      | Inr data_type \<Rightarrow>
     (case getitem info (PStr ''description'') of
        Inl e \<Rightarrow> Inl e
      | Inr descr \<Rightarrow>
        (let block = [(PStr ''oml:name'', key)]
                     @ set_if_not_None ''oml:data_type'' data_type
                     @ [(PStr ''oml:default_value'', default_value)]
                     @ set_if_not_None ''oml:description'' descr
         in case check_items block of
              Some e \<Rightarrow> Inl e
            | None \<Rightarrow> Inr (PDict block)))))"

text \<open>
  The loop \<^verbatim>\<open>for key in self.parameters\<close>: the items of the OrderedDict in insertion order
  (\<^verbatim>\<open>self.parameters[key]\<close> is the value of the item), a block appended per item, the first
  error ending the call.
\<close>

fun flow_parameters ::
  "(pyval \<times> pyval) list \<Rightarrow> (pyval \<times> pyval) list \<Rightarrow> error + pyval list" where
  "flow_parameters meta [] = Inr []"
| "flow_parameters meta ((key, default_value) # rest) =
     (case param_dict meta key default_value of
        Inl e \<Rightarrow> Inl e
      | Inr block \<Rightarrow>
          (case flow_parameters meta rest of
             Inl e \<Rightarrow> Inl e
           | Inr blocks \<Rightarrow> Inr (block # blocks)))"

text \<open>
  The check of lines 209-215 runs over the keys of \<^verbatim>\<open>component_dict\<close>.
\<close>

fun check_keys :: "(pyval \<times> pyval) list \<Rightarrow> error option" where
  "check_keys [] = None"
| "check_keys ((key', v) # rest) =
     (if key' \<noteq> PNone \<and> \<not> is_string key' then Some (ParameterNameNotString key')
      else check_keys rest)"

text \<open>
  One round of the loop of lines 203-217, given what the component's own \<^verbatim>\<open>_to_dict()\<close>
  returned.
\<close>

definition component_dict :: "pyval \<Rightarrow> error + pyval \<Rightarrow> error + pyval" where
  "component_dict key sub =
     (case sub of
        Inl e \<Rightarrow> Inl e
      | Inr sub_dict \<Rightarrow>
     (case getitem sub_dict (PStr ''oml:flow'') of
        Inl e \<Rightarrow> Inl e
      | Inr sub_flow \<Rightarrow>
        (let block = [(PStr ''oml:identifier'', key), (PStr ''oml:flow'', sub_flow)]
         in case check_keys block of
              Some e \<Rightarrow> Inl e
            | None \<Rightarrow> Inr (PDict block))))"

text \<open>The results of the rounds of a loop, up to the first that raised.\<close>

fun sequence :: "(error + 'a) list \<Rightarrow> error + 'a list" where
  "sequence [] = Inr []"
| "sequence (Inl e # rs) = Inl e"
| "sequence (Inr x # rs) = (case sequence rs of Inl e \<Rightarrow> Inl e | Inr xs \<Rightarrow> Inr (x # xs))"

text \<open>
  \<^verbatim>\<open>OpenMLFlow._to_dict\<close> (lines 138-230). The fields of \<^verbatim>\<open>flow_dict['oml:flow']\<close> in the
  order of the assignments (\<^verbatim>\<open>self._get_name()\<close> is \<^verbatim>\<open>self.name\<close>); the parameter loop
  runs before the component loop, which calls \<^verbatim>\<open>_to_dict\<close> on each component in insertion
  order. Nothing but the two loops can raise.
\<close>

fun to_dict :: "flow \<Rightarrow> error + pyval" where
  "to_dict (OpenMLFlow name' description' model' components' parameters' parameters_meta_info'
              external_version' tags' language' dependencies' binary_url' binary_format'
              binary_md5' uploader' upload_date' flow_id' version') =
     (case flow_parameters parameters_meta_info' parameters' of
        Inl e \<Rightarrow> Inl e
      | Inr blocks \<Rightarrow>
     (case sequence (map (\<lambda>(key, component). component_dict key (to_dict component)) components') of
        Inl e \<Rightarrow> Inl e
      | Inr component_blocks \<Rightarrow>
          Inr (PDict [(PStr ''oml:flow'', PDict (
                 [(PStr ''@xmlns:oml'', PStr ''http://openml.org/openml'')]
                 @ set_if_not_None ''oml:id'' flow_id'
                 @ set_if_not_None ''oml:uploader'' uploader'
                 @ [(PStr ''oml:name'', name')]
                 @ set_if_not_None ''oml:version'' version'
                 @ [(PStr ''oml:external_version'', external_version'),
                    (PStr ''oml:description'', description')]
                 @ set_if_not_None ''oml:upload_date'' upload_date'
                 @ set_if_not_None ''oml:language'' language'
                 @ set_if_not_None ''oml:dependencies'' dependencies'
                 @ [(PStr ''oml:parameter'', PList blocks),
                    (PStr ''oml:component'', PList component_blocks),
                    (PStr ''oml:tag'', tags')]
                 @ set_if_not_None ''oml:binary_url'' binary_url'
                 @ set_if_not_None ''oml:binary_format'' binary_format'
                 @ set_if_not_None ''oml:binary_md5'' binary_md5'))])))"

section \<open>Deserialization\<close>

text \<open>
  The dictionary \<^verbatim>\<open>arguments\<close> that \<^verbatim>\<open>_from_xml\<close> fills and passes as
  \<^verbatim>\<open>cls(**arguments)\<close>: one entry per parameter of \<^verbatim>\<open>__init__\<close>, \<^verbatim>\<open>None\<close> while the
  dictionary has no such key.
\<close>

record arguments =
  arg_name :: "pyval option"
  arg_description :: "pyval option"
  arg_model :: "pyval option"
  arg_components :: "flow arg option"
  arg_parameters :: "pyval arg option"
  arg_parameters_meta_info :: "pyval arg option"
  arg_external_version :: "pyval option"
  arg_tags :: "pyval option"
  arg_language :: "pyval option"
  arg_dependencies :: "pyval option"
  arg_binary_url :: "pyval option"
  arg_binary_format :: "pyval option"
  arg_binary_md5 :: "pyval option"
  arg_uploader :: "pyval option"
  arg_upload_date :: "pyval option"
  arg_flow_id :: "pyval option"
  arg_version :: "pyval option"

definition no_arguments :: arguments where
  "no_arguments =
     \<lparr>arg_name = None, arg_description = None, arg_model = None, arg_components = None,
      arg_parameters = None, arg_parameters_meta_info = None, arg_external_version = None,
      arg_tags = None, arg_language = None, arg_dependencies = None, arg_binary_url = None,
      arg_binary_format = None, arg_binary_md5 = None, arg_uploader = None,
      arg_upload_date = None, arg_flow_id = None, arg_version = None\<rparr>"

text \<open>
  The call \<^verbatim>\<open>cls(**arguments)\<close> with \<^verbatim>\<open>cls = OpenMLFlow\<close>. The signature of \<^verbatim>\<open>__init__\<close>
  (lines 76-80) has ten parameters without a default, \<^verbatim>\<open>name\<close> to \<^verbatim>\<open>dependencies\<close>, and
  seven that default to \<^verbatim>\<open>None\<close>. A parameter without a default that no keyword binds
  makes the call raise TypeError, naming all such parameters, before the body runs.
\<close>

definition missing :: "string \<Rightarrow> 'a option \<Rightarrow> string list" where
  "missing k v = (case v of None \<Rightarrow> [k] | Some _ \<Rightarrow> [])"

definition default_None :: "pyval option \<Rightarrow> pyval" where
  "default_None v = (case v of None \<Rightarrow> PNone | Some x \<Rightarrow> x)"

definition cls :: "arguments \<Rightarrow> error + flow" where
  "cls a =
     (let absent =
            missing ''name'' (arg_name a) @ missing ''description'' (arg_description a)
            @ missing ''model'' (arg_model a) @ missing ''components'' (arg_components a)
            @ missing ''parameters'' (arg_parameters a)
            @ missing ''parameters_meta_info'' (arg_parameters_meta_info a)
            @ missing ''external_version'' (arg_external_version a)
            @ missing ''tags'' (arg_tags a) @ missing ''language'' (arg_language a)
            @ missing ''dependencies'' (arg_dependencies a)
      in if absent \<noteq> [] then Inl (MissingArguments absent)
         else init (the (arg_name a)) (the (arg_description a)) (the (arg_model a))
                (the (arg_components a)) (the (arg_parameters a))
                (the (arg_parameters_meta_info a)) (the (arg_external_version a))
                (the (arg_tags a)) (the (arg_language a)) (the (arg_dependencies a))
                (default_None (arg_binary_url a)) (default_None (arg_binary_format a))
                (default_None (arg_binary_md5 a)) (default_None (arg_uploader a))
                (default_None (arg_upload_date a)) (default_None (arg_flow_id a))
                (default_None (arg_version a)))"

text \<open>
  Lines 246-261, on the dictionary \<^verbatim>\<open>dic\<close>: the two mandatory entries (a missing one raises
  KeyError), the nine optional ones, and \<^verbatim>\<open>flow_id\<close>.
\<close>

definition scalar_arguments :: "(pyval \<times> pyval) list \<Rightarrow> error + arguments" where
  "scalar_arguments dic =
     (case lookup dic (PStr ''oml:name'') of
        Inl e \<Rightarrow> Inl e
      | Inr name' \<Rightarrow>
     (case lookup dic (PStr ''oml:external_version'') of
        Inl e \<Rightarrow> Inl e
      | Inr external_version' \<Rightarrow>
     (case (if contains dic (PStr ''oml:id'')
            then map_sum id PInt (py_int (get dic (PStr ''oml:id'')))
            else Inr PNone) of
        Inl e \<Rightarrow> Inl e
      | Inr flow_id' \<Rightarrow>
          Inr (no_arguments
                 \<lparr>arg_name := Some name',
                  arg_external_version := Some external_version',
                  arg_uploader := Some (get dic (PStr ''oml:uploader'')),
                  arg_description := Some (get dic (PStr ''oml:description'')),
                  arg_upload_date := Some (get dic (PStr ''oml:upload_date'')),
                  arg_language := Some (get dic (PStr ''oml:language'')),
                  arg_dependencies := Some (get dic (PStr ''oml:dependencies'')),
                  arg_version := Some (get dic (PStr ''oml:version'')),
                  arg_binary_url := Some (get dic (PStr ''oml:binary_url'')),
                  arg_binary_format := Some (get dic (PStr ''oml:binary_format'')),
                  arg_binary_md5 := Some (get dic (PStr ''oml:binary_md5'')),
                  arg_flow_id := Some flow_id'\<rparr>))))"

text \<open>
  The entries under a key that may occur several times (lines 273-279, 294-300): none when
  the key is absent, the value itself when it is a dictionary, and otherwise what iterating
  over the value yields.
\<close>

definition oml_entries :: "(pyval \<times> pyval) list \<Rightarrow> pyval \<Rightarrow> error + pyval list" where
  "oml_entries dic k =
     (if contains dic k
      then (if is_dict (get dic k) then Inr [get dic k] else iterate (get dic k))
      else Inr [])"

text \<open>
  The loop of lines 281-289. The subscript \<^verbatim>\<open>oml_parameter['oml:name']\<close> raises TypeError
  unless the entry is a dictionary. \<^verbatim>\<open>d[k] = v\<close> on an OrderedDict replaces the value of a
  key it holds, in place, and appends the item otherwise; a key that is a list or a
  dictionary is not hashable.
\<close>

fun oml_parameters_loop ::
  "pyval list \<Rightarrow> (pyval \<times> pyval) list \<times> (pyval \<times> pyval) list
   \<Rightarrow> error + (pyval \<times> pyval) list \<times> (pyval \<times> pyval) list" where
  "oml_parameters_loop [] acc = Inr acc"
| "oml_parameters_loop (PDict oml_parameter # rest) (parameters', parameters_meta_info') =
     (case lookup oml_parameter (PStr ''oml:name'') of
        Inl e \<Rightarrow> Inl e
      | Inr parameter_name \<Rightarrow>
     (case lookup oml_parameter (PStr ''oml:default_value'') of
        Inl e \<Rightarrow> Inl e
      | Inr default_value \<Rightarrow>
          if \<not> hashable parameter_name then Inl (Unhashable parameter_name)
          else
            (let meta_info =
                   PDict [(PStr ''description'', get oml_parameter (PStr ''oml:description'')),
                          (PStr ''data_type'', get oml_parameter (PStr ''oml:data_type''))]
             in oml_parameters_loop rest
                  (AList.update parameter_name default_value parameters',
                   AList.update parameter_name meta_info parameters_meta_info'))))"
| "oml_parameters_loop (x # rest) acc = Inl (NotSubscriptable x)"

definition parameter_arguments ::
  "(pyval \<times> pyval) list \<Rightarrow> error + (pyval \<times> pyval) list \<times> (pyval \<times> pyval) list" where
  "parameter_arguments dic =
     (case oml_entries dic (PStr ''oml:parameter'') of
        Inl e \<Rightarrow> Inl e
      | Inr oml_parameters \<Rightarrow> oml_parameters_loop oml_parameters ([], []))"

text \<open>
  Lines 307-317: no tags when the key is absent or holds \<^verbatim>\<open>None\<close>.
\<close>

definition tag_arguments :: "(pyval \<times> pyval) list \<Rightarrow> error + pyval list" where
  "tag_arguments dic =
     (if contains dic (PStr ''oml:tag'') \<and> get dic (PStr ''oml:tag'') \<noteq> PNone
      then oml_entries dic (PStr ''oml:tag'')
      else Inr [])"

text \<open>
  One round of the loop of lines 302-304, given what the recursive call on the component
  returned.
\<close>

definition add_component ::
  "pyval \<Rightarrow> error + flow \<Rightarrow> (pyval \<times> flow) list \<Rightarrow> error + (pyval \<times> flow) list" where
  "add_component component sub components' =
     (case sub of
        Inl e \<Rightarrow> Inl e
      | Inr flow' \<Rightarrow>
     (case getitem component (PStr ''oml:identifier'') of
        Inl e \<Rightarrow> Inl e
      | Inr identifier \<Rightarrow>
          if \<not> hashable identifier then Inl (Unhashable identifier)
          else Inr (AList.update identifier flow' components')))"

lemma size_item:
  "(k, v) \<in> set d \<Longrightarrow> size k < size (PDict d) \<and> size v < size (PDict d)"
  by (induction d) auto

lemma size_map_of: "map_of d k = Some v \<Longrightarrow> size v < size (PDict d)"
  using size_item [of k v d] by (auto dest: map_of_SomeD)

lemma size_getitem: "getitem x k = Inr v \<Longrightarrow> size v < size x"
proof (cases x)
  case (PDict d)
  assume "getitem x k = Inr v"
  with PDict have "map_of d k = Some v"
    by (simp add: lookup_def split: option.splits)
  with PDict show ?thesis
    using size_map_of [of d k v] by simp
qed auto

lemma size_get: "contains d k \<Longrightarrow> size (get d k) < size (PDict d)"
proof -
  assume "contains d k"
  then obtain v where v: "map_of d k = Some v"
    by (auto simp: contains_def)
  then have "get d k = v"
    by (simp add: get_def)
  with v show ?thesis
    using size_map_of [of d k v] by simp
qed

lemma size_in_list: "c \<in> set xs \<Longrightarrow> size c < size (PList xs)"
  by (induction xs) auto

lemma size_iterate: "iterate x = Inr xs \<Longrightarrow> c \<in> set xs \<Longrightarrow> size c \<le> size x"
proof (cases x)
  case (PList ys)
  assume "iterate x = Inr xs" "c \<in> set xs"
  with PList show ?thesis using size_in_list [of c ys] by simp
next
  case (PDict d)
  assume "iterate x = Inr xs" "c \<in> set xs"
  with PDict obtain v where "(c, v) \<in> set d" by auto
  then have "size c < size (PDict d)"
    using size_item [of c v d] by simp
  with PDict show ?thesis by simp
qed auto

lemma size_oml_entries:
  assumes "oml_entries d k = Inr xs" and "c \<in> set xs"
  shows "size c < size (PDict d)"
proof (cases "contains d k")
  case True
  then have less: "size (get d k) < size (PDict d)"
    by (rule size_get)
  show ?thesis
  proof (cases "is_dict (get d k)")
    case True
    with \<open>contains d k\<close> assms have "c = get d k"
      by (auto simp: oml_entries_def)
    with less show ?thesis by simp
  next
    case False
    with \<open>contains d k\<close> assms have "iterate (get d k) = Inr xs"
      by (simp add: oml_entries_def)
    from this assms(2) have "size c \<le> size (get d k)"
      by (rule size_iterate)
    with less show ?thesis by simp
  qed
next
  case False
  with assms show ?thesis by (simp add: oml_entries_def)
qed

text \<open>
  \<^verbatim>\<open>OpenMLFlow._from_xml\<close> (lines 232-319), in two stages: \<^verbatim>\<open>from_xml_arguments\<close> is the
  body up to line 317, which fills \<^verbatim>\<open>arguments\<close>, and \<^verbatim>\<open>from_xml\<close> ends with the call
  \<^verbatim>\<open>cls(**arguments)\<close> of line 319. \<^verbatim>\<open>dic = xml_dict["oml:flow"]\<close>; the first subscript
  \<^verbatim>\<open>dic["oml:name"]\<close> raises TypeError unless \<^verbatim>\<open>dic\<close> is a dictionary. The loop over the
  components calls \<^verbatim>\<open>_from_xml\<close> on each entry and stores the flow under the entry's
  identifier; the first error ends the call.
\<close>

function from_xml_arguments :: "pyval \<Rightarrow> error + arguments"
  and from_xml :: "pyval \<Rightarrow> error + flow" where
  "from_xml_arguments xml_dict =
     (case getitem xml_dict (PStr ''oml:flow'') of
        Inl e \<Rightarrow> Inl e
      | Inr dic' \<Rightarrow>
     (case dic' of
        PDict dic \<Rightarrow>
          (case scalar_arguments dic of
             Inl e \<Rightarrow> Inl e
           | Inr arguments' \<Rightarrow>
          (case parameter_arguments dic of
             Inl e \<Rightarrow> Inl e
           | Inr (parameters', parameters_meta_info') \<Rightarrow>
          (case oml_entries dic (PStr ''oml:component'') of
             Inl e \<Rightarrow> Inl e
           | Inr oml_components \<Rightarrow>
          (case fold (\<lambda>component acc.
                        case acc of
                          Inl e \<Rightarrow> Inl e
                        | Inr components' \<Rightarrow>
                            add_component component (from_xml component) components')
                     oml_components (Inr []) of
             Inl e \<Rightarrow> Inl e
           | Inr components' \<Rightarrow>
          (case tag_arguments dic of
             Inl e \<Rightarrow> Inl e
           | Inr tags' \<Rightarrow>
               Inr (arguments'
                      \<lparr>arg_parameters := Some (OrderedDict parameters'),
                       arg_parameters_meta_info := Some (OrderedDict parameters_meta_info'),
                       arg_components := Some (OrderedDict components'),
                       arg_tags := Some (PList tags')\<rparr>))))))
      | _ \<Rightarrow> Inl (NotSubscriptable dic')))"
| "from_xml xml_dict =
     (case from_xml_arguments xml_dict of
        Inl e \<Rightarrow> Inl e
      | Inr arguments' \<Rightarrow> cls arguments')"
  by pat_completeness auto
termination
proof (relation "measure (\<lambda>x. case x of Inl d \<Rightarrow> 2 * size d | Inr d \<Rightarrow> 2 * size d + 1)")
  fix xml_dict dic' dic oml_components component
  assume "getitem xml_dict (PStr ''oml:flow'') = Inr dic'" and "dic' = PDict dic"
    and "oml_entries dic (PStr ''oml:component'') = Inr oml_components"
    and "component \<in> set oml_components"
  then have "size component < size dic'" and "size dic' < size xml_dict"
    by (auto dest: size_oml_entries size_getitem)
  then show "(Inr component, Inl xml_dict)
               \<in> measure (\<lambda>x. case x of Inl d \<Rightarrow> 2 * size d | Inr d \<Rightarrow> 2 * size d + 1)"
    by simp
qed simp_all

declare from_xml_arguments.simps [simp del] from_xml.simps [simp del]

section \<open>Equality\<close>

text \<open>
  \<^verbatim>\<open>self.__dict__\<close>: the attributes in the order in which \<^verbatim>\<open>__init__\<close> assigns them. An
  attribute holds a value, or (for \<^verbatim>\<open>components\<close>) an OrderedDict of flows.
\<close>

datatype attribute = Value pyval | Flows "(pyval \<times> flow) list"

definition dict_of :: "flow \<Rightarrow> (string \<times> attribute) list" where
  "dict_of self =
     [(''name'', Value (name self)),
      (''description'', Value (description self)),
      (''model'', Value (model self)),
      (''components'', Flows (components self)),
      (''parameters'', Value (PDict (parameters self))),
      (''parameters_meta_info'', Value (PDict (parameters_meta_info self))),
      (''external_version'', Value (external_version self)),
      (''uploader'', Value (uploader self)),
      (''tags'', Value (tags self)),
      (''binary_url'', Value (binary_url self)),
      (''binary_format'', Value (binary_format self)),
      (''binary_md5'', Value (binary_md5 self)),
      (''version'', Value (version self)),
      (''upload_date'', Value (upload_date self)),
      (''language'', Value (language self)),
      (''dependencies'', Value (dependencies self)),
      (''flow_id'', Value (flow_id self))]"

text \<open>\<^verbatim>\<open>del d[k]\<close> and \<^verbatim>\<open>if k in d: del d[k]\<close>.\<close>

definition del :: "string \<Rightarrow> (string \<times> 'a) list \<Rightarrow> (string \<times> 'a) list" where
  "del k d = filter (\<lambda>item. fst item \<noteq> k) d"

definition del_if_present :: "string \<Rightarrow> (string \<times> 'a) list \<Rightarrow> (string \<times> 'a) list" where
  "del_if_present k d = (if k \<in> set (map fst d) then del k d else d)"

definition generated_by_the_server :: "string list" where
  "generated_by_the_server =
     [''name'', ''flow_id'', ''uploader'', ''version'', ''upload_date'', ''source_url'',
      ''binary_url'', ''source_format'', ''binary_format'', ''source_md5'', ''binary_md5'']"

text \<open>
  What is left of \<^verbatim>\<open>__dict__\<close> (lines 328-353) after \<^verbatim>\<open>parameters\<close>, \<^verbatim>\<open>components\<close> and
  \<^verbatim>\<open>model\<close> are deleted and the loop over \<^verbatim>\<open>generated_by_the_server\<close> has run.
\<close>

definition remaining_dict :: "flow \<Rightarrow> (string \<times> attribute) list" where
  "remaining_dict self =
     fold del_if_present generated_by_the_server
       (del ''model'' (del ''components'' (del ''parameters'' (dict_of self))))"

text \<open>
  Lines 357-368, for \<^verbatim>\<open>parameters\<close> and for \<^verbatim>\<open>components\<close>: the key views are compared as
  sets (Python 3; under Python 2 \<^verbatim>\<open>keys()\<close> are lists, compared in order), then the values
  are compared pairwise in the insertion order of each side (\<^verbatim>\<open>zip\<close> stops at the shorter
  one), with the given comparison of two values.
\<close>

definition items_equal ::
  "('a \<Rightarrow> 'a \<Rightarrow> bool) \<Rightarrow> (pyval \<times> 'a) list \<Rightarrow> (pyval \<times> 'a) list \<Rightarrow> bool" where
  "items_equal eq this that =
     (set (map fst this) = set (map fst that)
      \<and> list_all (\<lambda>(this_value, other_value). eq this_value other_value)
           (zip (map snd this) (map snd that)))"

lemma items_equal_cong [fundef_cong]:
  assumes "this = this'" and "that = that'"
    and "\<And>a b. a \<in> snd ` set this' \<Longrightarrow> b \<in> snd ` set that' \<Longrightarrow> eq a b = eq' a b"
  shows "items_equal eq this that = items_equal eq' this' that'"
proof -
  have "(case p of (a, b) \<Rightarrow> eq a b) = (case p of (a, b) \<Rightarrow> eq' a b)"
    if "p \<in> set (zip (map snd this') (map snd that'))" for p
  proof -
    obtain a b where p: "p = (a, b)" by (cases p)
    with that have "a \<in> set (map snd this')" and "b \<in> set (map snd that')"
      by (auto dest: set_zip_leftD set_zip_rightD)
    then have "eq a b = eq' a b"
      using assms(3) by simp
    with p show ?thesis by simp
  qed
  then have "list_all (\<lambda>(a, b). eq a b) (zip (map snd this') (map snd that'))
             = list_all (\<lambda>(a, b). eq' a b) (zip (map snd this') (map snd that'))"
    by (simp cong: list_all_cong)
  with assms(1,2) show ?thesis
    by (simp add: items_equal_def)
qed

lemma size_component: "(k, c) \<in> set cs \<Longrightarrow> size c < Suc (size_list (size_prod (\<lambda>x. 0) size) cs)"
  by (induction cs) auto

text \<open>
  \<^verbatim>\<open>OpenMLFlow.__eq__\<close> (lines 321-371) on two flows (for any other operand the method
  returns \<^verbatim>\<open>NotImplemented\<close>); the values of \<^verbatim>\<open>components\<close> are flows, which \<^verbatim>\<open>==\<close>
  compares by this method.
\<close>

function OpenMLFlow_eq :: "flow \<Rightarrow> flow \<Rightarrow> bool" where
  "OpenMLFlow_eq self other =
     (let this_dict = remaining_dict self;
          other_dict = remaining_dict other;
          equal = (this_dict = other_dict);
          equal_name = (get_name self = get_name other);
          parameters_equal = items_equal (=) (parameters self) (parameters other);
          components_equal = items_equal OpenMLFlow_eq (components self) (components other)
      in parameters_equal \<and> components_equal \<and> equal \<and> equal_name)"
  by pat_completeness auto
termination
proof (relation "measure (\<lambda>(self, other). size self)")
  fix self other :: flow and a b
  assume "a \<in> snd ` set (components self)"
  then have "size a < size self"
    by (cases self) (auto dest: size_component)
  then show "((a, b), (self, other)) \<in> measure (\<lambda>(self, other). size self)"
    by simp
qed simp

declare OpenMLFlow_eq.simps [simp del]

section \<open>Registry synchronisation\<close>

text \<open>
  The collaborators are parameters of the model: the transport \<^verbatim>\<open>_perform_api_call\<close> (whose
  answer may depend on the calls made before), \<^verbatim>\<open>xmltodict.parse\<close>,
  \<^verbatim>\<open>xmltodict.unparse\<close> and \<^verbatim>\<open>sklearn.__version__\<close>. A request is the path and the
  \<^verbatim>\<open>file_elements\<close>, if any. The state that the operations thread is the list of requests
  sent to the transport so far.
\<close>

type_synonym request = "string \<times> (string \<times> string) list option"

record env =
  perform_api_call :: "request list \<Rightarrow> request \<Rightarrow> error + int \<times> string"
  xmltodict_parse :: "string \<Rightarrow> error + pyval"
  xmltodict_unparse :: "pyval \<Rightarrow> error + string"
  sklearn_version :: string

definition api_call ::
  "env \<Rightarrow> request \<Rightarrow> request list \<Rightarrow> (error + int \<times> string) \<times> request list" where
  "api_call E r calls = (perform_api_call E calls r, calls @ [r])"

text \<open>\<^verbatim>\<open>s.split('\n', 1)[-1]\<close>: what follows the first newline, or all of \<^verbatim>\<open>s\<close>.\<close>

definition after_first_newline :: "string \<Rightarrow> string" where
  "after_first_newline s =
     (if CHR 0x0A \<in> set s then tl (dropWhile (\<lambda>c. c \<noteq> CHR 0x0A) s) else s)"

text \<open>\<^verbatim>\<open>OpenMLFlow._to_xml\<close> (lines 122-136).\<close>

definition to_xml :: "env \<Rightarrow> flow \<Rightarrow> error + string" where
  "to_xml E self =
     (case to_dict self of
        Inl e \<Rightarrow> Inl e
      | Inr flow_dict \<Rightarrow>
     (case xmltodict_unparse E flow_dict of
        Inl e \<Rightarrow> Inl e
      | Inr flow_xml \<Rightarrow> Inr (after_first_newline flow_xml)))"

text \<open>\<^verbatim>\<open>self.flow_id = v\<close>.\<close>

definition set_flow_id :: "pyval \<Rightarrow> flow \<Rightarrow> flow" where
  "set_flow_id v self =
     OpenMLFlow (name self) (description self) (model self) (components self) (parameters self)
       (parameters_meta_info self) (external_version self) (tags self) (language self)
       (dependencies self) (binary_url self) (binary_format self) (binary_md5 self)
       (uploader self) (upload_date self) v (version self)"

text \<open>
  \<^verbatim>\<open>OpenMLFlow.publish\<close> (lines 373-387): returns \<^verbatim>\<open>self\<close>, with \<^verbatim>\<open>flow_id\<close> assigned.
\<close>

definition publish :: "env \<Rightarrow> flow \<Rightarrow> request list \<Rightarrow> (error + flow) \<times> request list" where
  "publish E self calls =
     (case to_xml E self of
        Inl e \<Rightarrow> (Inl e, calls)
      | Inr xml_description \<Rightarrow>
     (case api_call E (''flow/'', Some [(''description'', xml_description)]) calls of
        (Inl e, calls') \<Rightarrow> (Inl e, calls')
      | (Inr (return_code, return_value), calls') \<Rightarrow>
     (case xmltodict_parse E return_value of
        Inl e \<Rightarrow> (Inl e, calls')
      | Inr response \<Rightarrow>
     (case getitem response (PStr ''oml:upload_flow'') of
        Inl e \<Rightarrow> (Inl e, calls')
      | Inr upload_flow \<Rightarrow>
     (case getitem upload_flow (PStr ''oml:id'') of
        Inl e \<Rightarrow> (Inl e, calls')
      | Inr new_id \<Rightarrow>
     (case py_int new_id of
        Inl e \<Rightarrow> (Inl e, calls')
      | Inr n \<Rightarrow> (Inr (set_flow_id (PInt n) self), calls')))))))"

text \<open>
  \<^verbatim>\<open>_check_flow_exists\<close> (lines 451-483): the two checks, \<^verbatim>\<open>name\<close> first, then the call.
\<close>

fun check_flow_exists ::
  "env \<Rightarrow> pyval \<Rightarrow> pyval \<Rightarrow> request list
   \<Rightarrow> (error + int \<times> string \<times> pyval) \<times> request list" where
  "check_flow_exists E (PStr name') (PStr version') calls =
     (if \<not> length name' > 0 then (Inl NameNotNonEmptyString, calls)
      else if \<not> length version' > 0 then (Inl VersionNotNonEmptyString, calls)
      else
        (case api_call E (''flow/exists/'' @ name' @ ''/'' @ version', None) calls of
           (Inl e, calls') \<Rightarrow> (Inl e, calls')
         | (Inr (return_code, xml_response), calls') \<Rightarrow>
             if return_code \<noteq> 200 then (Inl (ApiCallFailed xml_response), calls')
             else
               (case xmltodict_parse E xml_response of
                  Inl e \<Rightarrow> (Inl e, calls')
                | Inr xml_dict \<Rightarrow>
               (case getitem xml_dict (PStr ''oml:flow_exists'') of
                  Inl e \<Rightarrow> (Inl e, calls')
                | Inr flow_exists \<Rightarrow>
               (case getitem flow_exists (PStr ''oml:id'') of
                  Inl e \<Rightarrow> (Inl e, calls')
                | Inr flow_id' \<Rightarrow> (Inr (return_code, xml_response, flow_id'), calls'))))))"
| "check_flow_exists E (PStr name') version' calls =
     (if \<not> length name' > 0 then (Inl NameNotNonEmptyString, calls)
      else (Inl VersionNotNonEmptyString, calls))"
| "check_flow_exists E name' version' calls = (Inl NameNotNonEmptyString, calls)"

text \<open>
  \<^verbatim>\<open>OpenMLFlow._ensure_flow_exists\<close> (lines 389-412). The result is what the method returns
  or raises, \<^verbatim>\<open>self\<close> as the call leaves it, and the requests sent. On the sentinel, line 406
  unpacks what \<^verbatim>\<open>publish\<close> returned into two names; \<^verbatim>\<open>publish\<close> returns \<^verbatim>\<open>self\<close>, and an
  \<^verbatim>\<open>OpenMLFlow\<close> is not iterable, so the unpacking raises TypeError and lines 408-410 are
  never reached.
\<close>

definition ensure_flow_exists ::
  "env \<Rightarrow> flow \<Rightarrow> request list \<Rightarrow> (error + int) \<times> flow \<times> request list" where
  "ensure_flow_exists E self calls =
     (let flow_version = ''sklearn_'' @ sklearn_version E
      in case check_flow_exists E (get_name self) (PStr flow_version) calls of
           (Inl e, calls') \<Rightarrow> (Inl e, self, calls')
         | (Inr (return_code, xml_response, flow_id'), calls') \<Rightarrow>
        (case py_int flow_id' of
           Inl e \<Rightarrow> (Inl e, self, calls')
         | Inr n \<Rightarrow>
             if n = - 1
             then (case publish E self calls' of
                     (Inl e, calls'') \<Rightarrow> (Inl e, self, calls'')
                   | (Inr self', calls'') \<Rightarrow> (Inl CannotUnpack, self', calls''))
             else (Inr n, self, calls')))"

section \<open>The data model of the specification\<close>

text \<open>
  What the specification asks of a Flow Entity that is to be serialized (data model,
  invariants 1 to 3), in the form the check of \<^verbatim>\<open>_to_dict\<close> needs it: every parameter has a
  meta-information dictionary with the entries \<^verbatim>\<open>data_type\<close> and \<^verbatim>\<open>description\<close>; the
  name, the default value, the data type and the description are strings or \<^verbatim>\<open>None\<close>; and
  every component is such a flow.
\<close>

definition string_or_None :: "pyval \<Rightarrow> bool" where
  "string_or_None x = (x = PNone \<or> is_string x)"

definition meta_info_of :: "(pyval \<times> pyval) list \<Rightarrow> pyval \<Rightarrow> (pyval \<times> pyval) list" where
  "meta_info_of meta k = (case map_of meta k of Some (PDict info) \<Rightarrow> info | _ \<Rightarrow> [])"

definition serializable_parameter :: "(pyval \<times> pyval) list \<Rightarrow> pyval \<times> pyval \<Rightarrow> bool" where
  "serializable_parameter meta p =
     (string_or_None (fst p) \<and> string_or_None (snd p)
      \<and> (case map_of meta (fst p) of
            Some (PDict info) \<Rightarrow>
              contains info (PStr ''data_type'') \<and> contains info (PStr ''description'')
              \<and> string_or_None (get info (PStr ''data_type''))
              \<and> string_or_None (get info (PStr ''description''))
          | _ \<Rightarrow> False))"

fun serializable :: "flow \<Rightarrow> bool" where
  "serializable (OpenMLFlow name' description' model' components' parameters'
                   parameters_meta_info' external_version' tags' language' dependencies'
                   binary_url' binary_format' binary_md5' uploader' upload_date' flow_id'
                   version') =
     (list_all (serializable_parameter parameters_meta_info') parameters'
      \<and> list_all (\<lambda>(key, component). serializable component) components')"

text \<open>
  The \<^verbatim>\<open>parameter\<close> block that section 4.2 of the specification prescribes for an item of
  \<^verbatim>\<open>parameters\<close>: in this order the name, the data type if it is not null, the default
  value, and the description if it is not null.
\<close>

definition parameter_block :: "(pyval \<times> pyval) list \<Rightarrow> pyval \<times> pyval \<Rightarrow> pyval" where
  "parameter_block meta p =
     (let data_type = get (meta_info_of meta (fst p)) (PStr ''data_type'');
          descr = get (meta_info_of meta (fst p)) (PStr ''description'')
      in PDict ([(PStr ''oml:name'', fst p)]
                @ (if data_type \<noteq> PNone then [(PStr ''oml:data_type'', data_type)] else [])
                @ [(PStr ''oml:default_value'', snd p)]
                @ (if descr \<noteq> PNone then [(PStr ''oml:description'', descr)] else [])))"

section \<open>Example inputs\<close>

text \<open>
  A flow with one parameter and no registry-assigned field, as \<^verbatim>\<open>__init__\<close> builds it, and
  the document that \<^verbatim>\<open>_to_dict\<close> returns for it.
\<close>

definition leaf_flow :: flow where
  "leaf_flow =
     OpenMLFlow (PStr ''leaf'') (PStr ''a leaf'') PNone [] [(PStr ''a'', PStr ''1'')]
       [(PStr ''a'', PDict [(PStr ''data_type'', PStr ''int''), (PStr ''description'', PNone)])]
       (PStr ''v1'') (PList []) PNone PNone PNone PNone PNone PNone PNone PNone PNone"

definition leaf_document :: pyval where
  "leaf_document =
     PDict [(PStr ''oml:flow'', PDict
       [(PStr ''@xmlns:oml'', PStr ''http://openml.org/openml''),
        (PStr ''oml:name'', PStr ''leaf''),
        (PStr ''oml:external_version'', PStr ''v1''),
        (PStr ''oml:description'', PStr ''a leaf''),
        (PStr ''oml:parameter'', PList
           [PDict [(PStr ''oml:name'', PStr ''a''), (PStr ''oml:data_type'', PStr ''int''),
                   (PStr ''oml:default_value'', PStr ''1'')]]),
        (PStr ''oml:component'', PList []),
        (PStr ''oml:tag'', PList [])])]"

text \<open>
  Documents as \<^verbatim>\<open>xmltodict.parse\<close> presents them: a single \<^verbatim>\<open>parameter\<close> element is a
  dictionary, two are a list of dictionaries; a single \<^verbatim>\<open>component\<close> is a dictionary; a
  single \<^verbatim>\<open>tag\<close> is the string of its text.
\<close>

definition parameter_entry :: "string \<Rightarrow> pyval" where
  "parameter_entry k = PDict [(PStr ''oml:name'', PStr k), (PStr ''oml:default_value'', PStr ''1'')]"

definition document_with :: "(pyval \<times> pyval) list \<Rightarrow> pyval" where
  "document_with entries =
     PDict [(PStr ''oml:flow'', PDict
       ([(PStr ''oml:name'', PStr ''f''), (PStr ''oml:external_version'', PStr ''v1'')]
        @ entries))]"

definition one_parameter_document :: pyval where
  "one_parameter_document = document_with [(PStr ''oml:parameter'', parameter_entry ''a'')]"

definition two_parameter_document :: pyval where
  "two_parameter_document =
     document_with [(PStr ''oml:parameter'', PList [parameter_entry ''a'', parameter_entry ''b''])]"

definition one_component_document :: pyval where
  "one_component_document =
     document_with
       [(PStr ''oml:component'',
         PDict [(PStr ''oml:identifier'', PStr ''C''),
                (PStr ''oml:flow'', PDict [(PStr ''oml:name'', PStr ''c''),
                                           (PStr ''oml:external_version'', PStr ''v1'')])])]"

definition one_tag_document :: pyval where
  "one_tag_document = document_with [(PStr ''oml:tag'', PStr ''ab'')]"

text \<open>
  A registry whose existence check answers a given id and whose upload assigns the id 99,
  with an XML parser that knows the two response bodies.
\<close>

definition mock_env :: "string \<Rightarrow> env" where
  "mock_env existing =
     \<lparr>perform_api_call =
        (\<lambda>calls (path, file_elements).
           if path = ''flow/'' then Inr (200, ''upload 99'') else Inr (200, existing)),
      xmltodict_parse =
        (\<lambda>s. if s = ''upload 99''
              then Inr (PDict [(PStr ''oml:upload_flow'', PDict [(PStr ''oml:id'', PStr ''99'')])])
              else Inr (PDict [(PStr ''oml:flow_exists'', PDict [(PStr ''oml:id'', PStr s)])])),
      xmltodict_unparse = (\<lambda>d. Inr ''<oml:flow/>''),
      sklearn_version = ''0.18''\<rparr>"


text \<open>
  Two flows that differ only in the order in which \<^verbatim>\<open>a\<close> and \<^verbatim>\<open>b\<close> were inserted into
  \<^verbatim>\<open>parameters\<close>, and a flow that differs from \<^verbatim>\<open>leaf_flow\<close> only in \<^verbatim>\<open>flow_id\<close>.
\<close>

definition ab_meta :: "(pyval \<times> pyval) list" where
  "ab_meta =
     [(PStr ''a'', PDict [(PStr ''data_type'', PNone), (PStr ''description'', PNone)]),
      (PStr ''b'', PDict [(PStr ''data_type'', PNone), (PStr ''description'', PNone)])]"

definition flow_with_parameters :: "(pyval \<times> pyval) list \<Rightarrow> flow" where
  "flow_with_parameters ps =
     OpenMLFlow (PStr ''f'') (PStr ''d'') PNone [] ps ab_meta (PStr ''v1'') (PList [])
       PNone PNone PNone PNone PNone PNone PNone PNone PNone"

definition ab_flow :: flow where
  "ab_flow = flow_with_parameters [(PStr ''a'', PStr ''1''), (PStr ''b'', PStr ''2'')]"

definition ba_flow :: flow where
  "ba_flow = flow_with_parameters [(PStr ''b'', PStr ''2''), (PStr ''a'', PStr ''1'')]"

text \<open>
  Two flows whose parameters \<^verbatim>\<open>a\<close> and \<^verbatim>\<open>b\<close> were inserted in opposite orders and hold the
  same value, and a flow that holds the values of \<^verbatim>\<open>ab_flow\<close> under the swapped keys.
\<close>

definition ab_same_flow :: flow where
  "ab_same_flow = flow_with_parameters [(PStr ''a'', PStr ''1''), (PStr ''b'', PStr ''1'')]"

definition ba_same_flow :: flow where
  "ba_same_flow = flow_with_parameters [(PStr ''b'', PStr ''1''), (PStr ''a'', PStr ''1'')]"

definition ba_swapped_flow :: flow where
  "ba_swapped_flow = flow_with_parameters [(PStr ''b'', PStr ''1''), (PStr ''a'', PStr ''2'')]"

text \<open>
  A flow whose parameters were inserted in the order \<^verbatim>\<open>b\<close>, \<^verbatim>\<open>a\<close>, \<^verbatim>\<open>c\<close>; flows whose
  only parameter has the default value \<^verbatim>\<open>None\<close> and the integer 1; and a flow whose
  parameter has the default value 1 and an empty meta-information dictionary.
\<close>

definition no_meta :: pyval where
  "no_meta = PDict [(PStr ''data_type'', PNone), (PStr ''description'', PNone)]"

definition bac_flow :: flow where
  "bac_flow =
     OpenMLFlow (PStr ''f'') (PStr ''d'') PNone []
       [(PStr ''b'', PStr ''2''), (PStr ''a'', PStr ''1''), (PStr ''c'', PStr ''3'')]
       [(PStr ''a'', no_meta), (PStr ''b'', no_meta), (PStr ''c'', no_meta)]
       (PStr ''v1'') (PList []) PNone PNone PNone PNone PNone PNone PNone PNone PNone"

definition none_value_flow :: flow where
  "none_value_flow =
     OpenMLFlow (PStr ''f'') (PStr ''d'') PNone [] [(PStr ''a'', PNone)] [(PStr ''a'', no_meta)]
       (PStr ''v1'') (PList []) PNone PNone PNone PNone PNone PNone PNone PNone PNone"

definition int_value_flow :: flow where
  "int_value_flow =
     OpenMLFlow (PStr ''f'') (PStr ''d'') PNone [] [(PStr ''a'', PInt 1)] [(PStr ''a'', no_meta)]
       (PStr ''v1'') (PList []) PNone PNone PNone PNone PNone PNone PNone PNone PNone"

definition no_data_type_flow :: flow where
  "no_data_type_flow =
     OpenMLFlow (PStr ''f'') (PStr ''d'') PNone [] [(PStr ''a'', PInt 1)] [(PStr ''a'', PDict [])]
       (PStr ''v1'') (PList []) PNone PNone PNone PNone PNone PNone PNone PNone PNone"

section \<open>Properties of the constructor\<close>

lemma card_diff_pos: "(card (set xs - set ys) > 0) = (\<not> set xs \<subseteq> set ys)"
  by (simp add: card_gt_0_iff)

text \<open>
  C5. With the three containers passed as OrderedDicts, construction succeeds exactly when
  \<^verbatim>\<open>parameters\<close> and \<^verbatim>\<open>parameters_meta_info\<close> have the same key set. A key of
  \<^verbatim>\<open>parameters\<close> missing from \<^verbatim>\<open>parameters_meta_info\<close> raises the ValueError that carries
  the set of such keys; otherwise a key of \<^verbatim>\<open>parameters_meta_info\<close> missing from
  \<^verbatim>\<open>parameters\<close> raises the ValueError that carries the set of those keys.
\<close>

theorem init_key_set_check:
  "((\<exists>f. init n d m (OrderedDict cs) (OrderedDict ps) (OrderedDict ms) ev t l dp bu bf bm up ud fid v = Inr f)
      \<longleftrightarrow> set (map fst ps) = set (map fst ms))
   \<and> (\<not> set (map fst ps) \<subseteq> set (map fst ms) \<longrightarrow>
        init n d m (OrderedDict cs) (OrderedDict ps) (OrderedDict ms) ev t l dp bu bf bm up ud fid v
          = Inl (OnlyInParameters (set (map fst ps) - set (map fst ms)))
        \<and> exception_of (OnlyInParameters (set (map fst ps) - set (map fst ms))) = ValueError
        \<and> set (map fst ps) - set (map fst ms) \<noteq> {})
   \<and> (set (map fst ps) \<subseteq> set (map fst ms) \<and> \<not> set (map fst ms) \<subseteq> set (map fst ps) \<longrightarrow>
        init n d m (OrderedDict cs) (OrderedDict ps) (OrderedDict ms) ev t l dp bu bf bm up ud fid v
          = Inl (OnlyInParametersMetaInfo (set (map fst ms) - set (map fst ps)))
        \<and> exception_of (OnlyInParametersMetaInfo (set (map fst ms) - set (map fst ps))) = ValueError
        \<and> set (map fst ms) - set (map fst ps) \<noteq> {})"
proof -
  let ?kp = "set (map fst ps)" and ?km = "set (map fst ms)"
  have p: "(card (?kp - ?km) > 0) = (\<not> ?kp \<subseteq> ?km)"
    by (rule card_diff_pos)
  have q: "(card (?km - ?kp) > 0) = (\<not> ?km \<subseteq> ?kp)"
    by (rule card_diff_pos)
  show ?thesis
    unfolding init_def Let_def arg.case p q
    by auto
qed

theorem init_key_set_check_witness:
  "init (PStr ''f'') PNone PNone (OrderedDict [])
        (OrderedDict [(PStr ''a'', PStr ''1''), (PStr ''b'', PStr ''2'')])
        (OrderedDict [(PStr ''b'', PDict [])])
        PNone PNone PNone PNone PNone PNone PNone PNone PNone PNone PNone
     = Inl (OnlyInParameters {PStr ''a''})
   \<and> (\<exists>f. init (PStr ''f'') PNone PNone (OrderedDict [])
        (OrderedDict [(PStr ''a'', PStr ''1'')]) (OrderedDict [(PStr ''a'', PDict [])])
        PNone PNone PNone PNone PNone PNone PNone PNone PNone PNone PNone = Inr f)"
proof -
  have "\<not> set (map fst [(PStr ''a'', PStr ''1''), (PStr ''b'', PStr ''2'')])
           \<subseteq> set (map fst [(PStr ''b'', PDict [])])"
    by simp
  moreover have "set (map fst [(PStr ''a'', PStr ''1''), (PStr ''b'', PStr ''2'')])
                   - set (map fst [(PStr ''b'', PDict [])]) = {PStr ''a''}"
    by auto
  moreover have "set (map fst [(PStr ''a'', PStr ''1'')]) = set (map fst [(PStr ''a'', PDict [])])"
    by simp
  ultimately show ?thesis
    using init_key_set_check
            [of "PStr ''f''" PNone PNone "[]" "[(PStr ''a'', PStr ''1''), (PStr ''b'', PStr ''2'')]"
                "[(PStr ''b'', PDict [])]" PNone PNone PNone PNone PNone PNone PNone PNone PNone PNone PNone]
          init_key_set_check
            [of "PStr ''f''" PNone PNone "[]" "[(PStr ''a'', PStr ''1'')]"
                "[(PStr ''a'', PDict [])]" PNone PNone PNone PNone PNone PNone PNone PNone PNone PNone PNone]
    by metis
qed

section \<open>Properties of deserialization\<close>

lemma scalar_arguments_fields:
  assumes "scalar_arguments dic = Inr a"
  shows "arg_model a = None" and "arg_name a \<noteq> None" and "arg_description a \<noteq> None"
    and "arg_external_version a \<noteq> None" and "arg_language a \<noteq> None"
    and "arg_dependencies a \<noteq> None"
  using assms
  by (auto simp: scalar_arguments_def no_arguments_def split: sum.splits if_splits)

text \<open>
  Whatever \<^verbatim>\<open>arguments\<close> the body of \<^verbatim>\<open>_from_xml\<close> builds, it has no entry for \<^verbatim>\<open>model\<close>
  and one for each other parameter without a default, so the call of the constructor raises
  for exactly that parameter.
\<close>

lemma from_xml_arguments_missing:
  assumes "from_xml_arguments xml_dict = Inr a"
  shows "arg_model a = None \<and> cls a = Inl (MissingArguments [''model''])"
proof -
  from assms obtain a0 ps ms cs ts
    where a0: "scalar_arguments
                 (case getitem xml_dict (PStr ''oml:flow'') of Inr (PDict dic) \<Rightarrow> dic | _ \<Rightarrow> [])
               = Inr a0"
      and a: "a = a0\<lparr>arg_parameters := Some (OrderedDict ps),
                     arg_parameters_meta_info := Some (OrderedDict ms),
                     arg_components := Some (OrderedDict cs),
                     arg_tags := Some (PList ts)\<rparr>"
    by (subst (asm) from_xml_arguments.simps) (auto split: sum.splits pyval.splits prod.splits)
  from scalar_arguments_fields [OF a0] a show ?thesis
    by (auto simp: cls_def missing_def)
qed

lemma from_xml_raises: "\<exists>e. from_xml xml_dict = Inl e"
proof (cases "from_xml_arguments xml_dict")
  case (Inl e)
  then show ?thesis by (simp add: from_xml.simps)
next
  case (Inr a)
  then show ?thesis
    using from_xml_arguments_missing [of xml_dict a] by (simp add: from_xml.simps)
qed

lemma from_xml_of_arguments:
  "from_xml_arguments xml_dict = Inr a \<Longrightarrow> from_xml xml_dict = Inl (MissingArguments [''model''])"
  using from_xml_arguments_missing [of xml_dict a] by (simp add: from_xml.simps)

lemmas value_simps = lookup_def get_def contains_def oml_entries_def scalar_arguments_def
  parameter_arguments_def tag_arguments_def no_arguments_def

lemma leaf_to_dict: "to_dict leaf_flow = Inr leaf_document"
  by (simp add: leaf_flow_def leaf_document_def param_dict_def lookup_def set_if_not_None_def)

lemma leaf_arguments:
  "\<exists>a. from_xml_arguments leaf_document = Inr a
        \<and> arg_parameters a = Some (OrderedDict [(PStr ''a'', PStr ''1'')])"
  by (subst from_xml_arguments.simps) (simp add: leaf_document_def value_simps)

lemma one_parameter_arguments:
  "\<exists>a. from_xml_arguments one_parameter_document = Inr a
        \<and> arg_parameters a = Some (OrderedDict [(PStr ''a'', PStr ''1'')])"
  by (subst from_xml_arguments.simps)
     (simp add: one_parameter_document_def document_with_def parameter_entry_def value_simps)

lemma two_parameter_arguments:
  "\<exists>a. from_xml_arguments two_parameter_document = Inr a
        \<and> arg_parameters a
            = Some (OrderedDict [(PStr ''a'', PStr ''1''), (PStr ''b'', PStr ''1'')])"
  by (subst from_xml_arguments.simps)
     (simp add: two_parameter_document_def document_with_def parameter_entry_def value_simps)

lemma one_tag_arguments:
  "\<exists>a. from_xml_arguments one_tag_document = Inr a
        \<and> arg_tags a = Some (PList [PStr ''a'', PStr ''b''])"
  by (subst from_xml_arguments.simps)
     (simp add: one_tag_document_def document_with_def value_simps)

lemma one_component_arguments:
  "from_xml_arguments one_component_document = Inl (MissingArguments [''model''])"
  apply (subst from_xml_arguments.simps)
  apply (simp add: one_component_document_def document_with_def value_simps add_component_def)
  apply (subst from_xml.simps)
  apply (subst from_xml_arguments.simps)
  apply (simp add: value_simps cls_def missing_def)
  done

text \<open>
  C2. On every input document \<^verbatim>\<open>_from_xml\<close> raises and returns no flow: whenever its body
  gets as far as line 319, the \<^verbatim>\<open>arguments\<close> it has built hold no \<^verbatim>\<open>model\<close>, and the call
  \<^verbatim>\<open>cls(**arguments)\<close> raises the TypeError for the missing argument \<^verbatim>\<open>model\<close>.
\<close>

theorem from_xml_always_raises:
  "(\<exists>e. from_xml xml_dict = Inl e)
   \<and> (\<forall>a. from_xml_arguments xml_dict = Inr a \<longrightarrow>
          arg_model a = None
          \<and> from_xml xml_dict = Inl (MissingArguments [''model''])
          \<and> exception_of (MissingArguments [''model'']) = TypeError)"
  using from_xml_raises [of xml_dict] from_xml_arguments_missing [of xml_dict]
    from_xml_of_arguments [of xml_dict]
  by auto

theorem from_xml_always_raises_witness:
  "from_xml leaf_document = Inl (MissingArguments [''model''])"
  using from_xml_always_raises [of leaf_document] leaf_arguments
  by auto

text \<open>
  C1, at a flow built with consistent keys and no registry-assigned field: the constructor
  returns the flow, \<^verbatim>\<open>_to_dict\<close> returns its document, and \<^verbatim>\<open>_from_xml\<close> raises on that
  document instead of returning an equal flow.
\<close>

theorem round_trip_raises:
  "init (PStr ''leaf'') (PStr ''a leaf'') PNone (OrderedDict [])
     (OrderedDict [(PStr ''a'', PStr ''1'')])
     (OrderedDict [(PStr ''a'', PDict [(PStr ''data_type'', PStr ''int''),
                                       (PStr ''description'', PNone)])])
     (PStr ''v1'') PNone PNone PNone PNone PNone PNone PNone PNone PNone PNone = Inr leaf_flow
   \<and> to_dict leaf_flow = Inr leaf_document
   \<and> from_xml leaf_document = Inl (MissingArguments [''model''])"
proof -
  have "from_xml leaf_document = Inl (MissingArguments [''model''])"
    using leaf_arguments from_xml_of_arguments by blast
  then show ?thesis
    by (simp add: leaf_to_dict) (simp add: init_def leaf_flow_def)
qed

text \<open>
  C9, at documents with a single \<^verbatim>\<open>parameter\<close> object, with a list of two, with a single
  \<^verbatim>\<open>component\<close> and with a single \<^verbatim>\<open>tag\<close>: the body of \<^verbatim>\<open>_from_xml\<close> collects one and two
  parameters, but the call raises on each document and yields no mapping; a single tag that
  is a string is taken apart into its characters.
\<close>

theorem from_xml_multiplicity_raises:
  "from_xml one_parameter_document = Inl (MissingArguments [''model''])
   \<and> from_xml two_parameter_document = Inl (MissingArguments [''model''])
   \<and> from_xml one_component_document = Inl (MissingArguments [''model''])
   \<and> from_xml one_tag_document = Inl (MissingArguments [''model''])
   \<and> (\<exists>a. from_xml_arguments one_parameter_document = Inr a
          \<and> arg_parameters a = Some (OrderedDict [(PStr ''a'', PStr ''1'')]))
   \<and> (\<exists>a. from_xml_arguments two_parameter_document = Inr a
          \<and> arg_parameters a
              = Some (OrderedDict [(PStr ''a'', PStr ''1''), (PStr ''b'', PStr ''1'')]))
   \<and> (\<exists>a. from_xml_arguments one_tag_document = Inr a
          \<and> arg_tags a = Some (PList [PStr ''a'', PStr ''b'']))"
proof -
  have "from_xml one_parameter_document = Inl (MissingArguments [''model''])"
    using one_parameter_arguments from_xml_of_arguments by blast
  moreover have "from_xml two_parameter_document = Inl (MissingArguments [''model''])"
    using two_parameter_arguments from_xml_of_arguments by blast
  moreover have "from_xml one_component_document = Inl (MissingArguments [''model''])"
    by (simp add: from_xml.simps one_component_arguments)
  moreover have "from_xml one_tag_document = Inl (MissingArguments [''model''])"
    using one_tag_arguments from_xml_of_arguments by blast
  ultimately show ?thesis
    using one_parameter_arguments two_parameter_arguments one_tag_arguments by simp
qed

section \<open>Properties of the registry operations\<close>

lemmas int_simps = int_of_string_def strip_def is_space_def nat_of_digits_def digit_def

lemma int_of_string_examples:
  "int_of_string ''-1'' = Some (- 1)" "int_of_string ''17'' = Some 17"
  "int_of_string ''99'' = Some 99"
  by (simp_all add: int_simps)

lemma check_flow_exists_mock:
  "existing \<noteq> ''upload 99'' \<Longrightarrow>
   check_flow_exists (mock_env existing) (PStr ''leaf'') (PStr ''sklearn_0.18'') calls
     = (Inr (200, existing, PStr existing), calls @ [(''flow/exists/leaf/sklearn_0.18'', None)])"
  by (simp add: mock_env_def api_call_def lookup_def)

lemma publish_mock:
  "publish (mock_env existing) leaf_flow calls
     = (Inr (set_flow_id (PInt 99) leaf_flow),
        calls @ [(''flow/'', Some [(''description'', ''<oml:flow/>'')])])"
  by (simp add: publish_def to_xml_def leaf_to_dict mock_env_def api_call_def lookup_def
        after_first_newline_def int_of_string_examples)

text \<open>
  For every transport and every flow: when the existence check answers an id other than the
  sentinel, \<^verbatim>\<open>_ensure_flow_exists\<close> returns it and sends nothing more; when it answers the
  sentinel, the method returns no id, whatever \<^verbatim>\<open>publish\<close> does.
\<close>

lemma ensure_flow_exists_existing:
  assumes "check_flow_exists E (get_name self) (PStr (''sklearn_'' @ sklearn_version E)) calls
             = (Inr (return_code, xml_response, flow_id'), calls')"
    and "py_int flow_id' = Inr n" and "n \<noteq> - 1"
  shows "ensure_flow_exists E self calls = (Inr n, self, calls')"
  using assms by (simp add: ensure_flow_exists_def)

lemma ensure_flow_exists_sentinel:
  assumes "check_flow_exists E (get_name self) (PStr (''sklearn_'' @ sklearn_version E)) calls
             = (Inr (return_code, xml_response, flow_id'), calls')"
    and "py_int flow_id' = Inr (- 1)"
  shows "\<exists>e self' calls''. ensure_flow_exists E self calls = (Inl e, self', calls'')"
  using assms by (auto simp: ensure_flow_exists_def split: prod.splits sum.splits)

text \<open>
  C3, at a registry that answers the existence check with the sentinel \<^verbatim>\<open>-1\<close>:
  \<^verbatim>\<open>_ensure_flow_exists\<close> sends the existence request and the upload, \<^verbatim>\<open>publish\<close> assigns
  the new id 99 to \<^verbatim>\<open>self.flow_id\<close>, and the method then raises TypeError instead of
  returning the id. At a registry that answers 17 the method returns 17 after the existence
  request alone.
\<close>

theorem ensure_flow_exists_sentinel_raises:
  "ensure_flow_exists (mock_env ''-1'') leaf_flow []
     = (Inl CannotUnpack, set_flow_id (PInt 99) leaf_flow,
        [(''flow/exists/leaf/sklearn_0.18'', None),
         (''flow/'', Some [(''description'', ''<oml:flow/>'')])])
   \<and> exception_of CannotUnpack = TypeError
   \<and> ensure_flow_exists (mock_env ''17'') leaf_flow []
     = (Inr 17, leaf_flow, [(''flow/exists/leaf/sklearn_0.18'', None)])"
proof -
  have n: "get_name leaf_flow = PStr ''leaf''"
    by (simp add: get_name_def leaf_flow_def)
  have v: "''sklearn_'' @ sklearn_version (mock_env s) = ''sklearn_0.18''" for s
    by (simp add: mock_env_def)
  have c: "check_flow_exists (mock_env s) (PStr ''leaf'') (PStr ''sklearn_0.18'') []
           = (Inr (200, s, PStr s), [(''flow/exists/leaf/sklearn_0.18'', None)])"
    if "s \<noteq> ''upload 99''" for s
    using check_flow_exists_mock [OF that, of "[]"] by simp
  have "ensure_flow_exists (mock_env ''-1'') leaf_flow []
          = (Inl CannotUnpack, set_flow_id (PInt 99) leaf_flow,
             [(''flow/exists/leaf/sklearn_0.18'', None),
              (''flow/'', Some [(''description'', ''<oml:flow/>'')])])"
    unfolding ensure_flow_exists_def Let_def n v
    by (simp add: c publish_mock int_of_string_examples del: check_flow_exists.simps)
  moreover have "ensure_flow_exists (mock_env ''17'') leaf_flow []
          = (Inr 17, leaf_flow, [(''flow/exists/leaf/sklearn_0.18'', None)])"
    unfolding ensure_flow_exists_def Let_def n v
    by (simp add: c int_of_string_examples del: check_flow_exists.simps)
  ultimately show ?thesis by simp
qed

text \<open>
  C4. When \<^verbatim>\<open>name\<close> or \<^verbatim>\<open>version\<close> is not a string or is the empty string,
  \<^verbatim>\<open>_check_flow_exists\<close> raises a ValueError and the list of requests sent to the transport
  is the one it started with.
\<close>

theorem check_flow_exists_validates:
  "\<not> is_string name' \<or> name' = PStr [] \<or> \<not> is_string version' \<or> version' = PStr []
   \<Longrightarrow> \<exists>e. check_flow_exists E name' version' calls = (Inl e, calls)
            \<and> exception_of e = ValueError"
  by (cases name'; cases version') auto

theorem check_flow_exists_validates_witness:
  "\<exists>e. check_flow_exists (mock_env ''17'') (PStr []) (PStr ''1.0'') [] = (Inl e, [])
        \<and> exception_of e = ValueError"
  using check_flow_exists_validates [of "PStr []" "PStr ''1.0''" "mock_env ''17''" "[]"]
  by simp


section \<open>Properties of equality\<close>

lemma remaining_dict_eq:
  "remaining_dict self =
     [(''description'', Value (description self)),
      (''parameters_meta_info'', Value (PDict (parameters_meta_info self))),
      (''external_version'', Value (external_version self)),
      (''tags'', Value (tags self)),
      (''language'', Value (language self)),
      (''dependencies'', Value (dependencies self))]"
  by (simp add: remaining_dict_def dict_of_def del_def del_if_present_def
        generated_by_the_server_def)

lemma items_equal_same:
  assumes "\<And>c. c \<in> snd ` set cs \<Longrightarrow> eq c c"
  shows "items_equal eq cs cs"
  using assms by (auto simp: items_equal_def list_all_iff zip_same_conv_map)

lemma OpenMLFlow_eq_ignores:
  "OpenMLFlow_eq (OpenMLFlow n d m cs ps ms ev tg lg dp bu bf bm up ud fid v)
                 (OpenMLFlow n2 d2 m2 cs2 ps2 ms2 ev2 tg2 lg2 dp2 bu2 bf2 bm2 up2 ud2 fid2 v2)
   = (items_equal (=) ps ps2 \<and> items_equal OpenMLFlow_eq cs cs2
      \<and> (d = d2 \<and> ms = ms2 \<and> ev = ev2 \<and> tg = tg2 \<and> lg = lg2 \<and> dp = dp2) \<and> n = n2)"
  by (subst OpenMLFlow_eq.simps) (simp add: remaining_dict_eq get_name_def)

lemma OpenMLFlow_eq_refl: "OpenMLFlow_eq f f"
proof (induction f)
  case (OpenMLFlow n d m cs ps ms ev tg lg dp bu bf bm up ud fid v)
  have "items_equal OpenMLFlow_eq cs cs"
  proof (rule items_equal_same)
    fix c assume "c \<in> snd ` set cs"
    then show "OpenMLFlow_eq c c"
      using OpenMLFlow.IH by force
  qed
  moreover have "items_equal (=) ps ps"
    by (rule items_equal_same) simp
  ultimately show ?case
    by (simp add: OpenMLFlow_eq_ignores)
qed


text \<open>
  C6. Two flows that agree on every attribute other than \<^verbatim>\<open>model\<close>, \<^verbatim>\<open>flow_id\<close>,
  \<^verbatim>\<open>uploader\<close>, \<^verbatim>\<open>version\<close>, \<^verbatim>\<open>upload_date\<close> and the three binary fields are judged
  equal; and the verdict on any two flows does not change when these attributes of either
  flow are replaced.
\<close>

theorem eq_ignores_registry_fields:
  "OpenMLFlow_eq (OpenMLFlow n d m cs ps ms ev tg lg dp bu bf bm up ud fid v)
                 (OpenMLFlow n d m' cs ps ms ev tg lg dp bu' bf' bm' up' ud' fid' v')
   \<and> OpenMLFlow_eq (OpenMLFlow n d m cs ps ms ev tg lg dp bu bf bm up ud fid v)
                   (OpenMLFlow n2 d2 m2 cs2 ps2 ms2 ev2 tg2 lg2 dp2 bu2 bf2 bm2 up2 ud2 fid2 v2)
     = OpenMLFlow_eq (OpenMLFlow n d m' cs ps ms ev tg lg dp bu' bf' bm' up' ud' fid' v')
                     (OpenMLFlow n2 d2 m2' cs2 ps2 ms2 ev2 tg2 lg2 dp2 bu2' bf2' bm2' up2' ud2' fid2' v2')"
proof -
  have "OpenMLFlow_eq (OpenMLFlow n d m cs ps ms ev tg lg dp bu bf bm up ud fid v)
                      (OpenMLFlow n d m cs ps ms ev tg lg dp bu bf bm up ud fid v)"
    by (rule OpenMLFlow_eq_refl)
  then show ?thesis
    by (simp add: OpenMLFlow_eq_ignores)
qed

theorem eq_ignores_registry_fields_witness:
  "OpenMLFlow_eq leaf_flow (set_flow_id (PInt 42) leaf_flow)"
  using eq_ignores_registry_fields
          [of "PStr ''leaf''" "PStr ''a leaf''" PNone "[]" "[(PStr ''a'', PStr ''1'')]"
              "[(PStr ''a'', PDict [(PStr ''data_type'', PStr ''int''), (PStr ''description'', PNone)])]"
              "PStr ''v1''" "PList []" PNone PNone PNone PNone PNone PNone PNone PNone PNone
              PNone PNone PNone PNone PNone PNone "PInt 42" PNone]
  by (simp add: leaf_flow_def set_flow_id_def)



text \<open>
  What the comparison of lines 357-362 computes on two OrderedDicts: equal key sets and the
  same values position by position.
\<close>

lemma items_equal_values:
  assumes "distinct (map fst ps)" and "distinct (map fst qs)"
  shows "items_equal (=) ps qs
         \<longleftrightarrow> set (map fst ps) = set (map fst qs) \<and> map snd ps = map snd qs"
proof -
  have "length ps = length qs" if "set (map fst ps) = set (map fst qs)"
    using that assms by (metis distinct_card length_map)
  then have "list_all (\<lambda>(a, b). a = b) (zip (map snd ps) (map snd qs)) \<longleftrightarrow> map snd ps = map snd qs"
    if "set (map fst ps) = set (map fst qs)"
    using that by (auto simp: list_all_iff list_eq_iff_zip_eq)
  then show ?thesis
    by (auto simp: items_equal_def)
qed

lemma same_items:
  assumes keys: "map fst ps = map fst qs" and d: "distinct (map fst ps)"
    and vals: "\<And>k. map_of ps k = map_of qs k"
  shows "ps = qs"
proof (rule nth_equalityI)
  show len: "length ps = length qs"
    using keys by (rule map_eq_imp_length_eq)
  fix i assume i: "i < length ps"
  with len have j: "i < length qs" by simp
  have f: "fst (ps ! i) = fst (qs ! i)"
    using arg_cong [OF keys, of "\<lambda>xs. xs ! i"] i j by simp
  have "(fst (ps ! i), snd (ps ! i)) \<in> set ps"
    using i by simp
  with d have p: "map_of ps (fst (ps ! i)) = Some (snd (ps ! i))"
    by (simp only: map_of_eq_Some_iff)
  have "(fst (qs ! i), snd (qs ! i)) \<in> set qs"
    using j by simp
  with d keys have "map_of qs (fst (qs ! i)) = Some (snd (qs ! i))"
    by (simp only: map_of_eq_Some_iff)
  with p f vals [of "fst (ps ! i)"] have "snd (ps ! i) = snd (qs ! i)"
    by simp
  with f show "ps ! i = qs ! i"
    by (simp add: prod_eq_iff)
qed

text \<open>
  C7 fails when the insertion orders differ: \<^verbatim>\<open>ab_flow\<close> and \<^verbatim>\<open>ba_flow\<close> have the same
  parameter keys, the same value under every key and equal other compared attributes, and
  are judged unequal.
\<close>

theorem parameters_order_counterexample:
  "set (map fst (parameters ab_flow)) = set (map fst (parameters ba_flow))
   \<and> (\<forall>k. map_of (parameters ab_flow) k = map_of (parameters ba_flow) k)
   \<and> remaining_dict ab_flow = remaining_dict ba_flow
   \<and> get_name ab_flow = get_name ba_flow
   \<and> items_equal OpenMLFlow_eq (components ab_flow) (components ba_flow)
   \<and> \<not> OpenMLFlow_eq ab_flow ba_flow"
proof -
  have "\<not> OpenMLFlow_eq ab_flow ba_flow"
    by (simp add: ab_flow_def ba_flow_def flow_with_parameters_def OpenMLFlow_eq_ignores
          items_equal_def)
  moreover have "set (map fst (parameters ab_flow)) = set (map fst (parameters ba_flow))"
    by (auto simp: ab_flow_def ba_flow_def flow_with_parameters_def)
  moreover have "map_of (parameters ab_flow) k = map_of (parameters ba_flow) k" for k
    by (simp add: ab_flow_def ba_flow_def flow_with_parameters_def)
  ultimately show ?thesis
    by (simp add: remaining_dict_eq get_name_def items_equal_def)
       (simp add: ab_flow_def ba_flow_def flow_with_parameters_def)
qed

lemma zip_all_equal:
  "list_all (\<lambda>(a, b). a = b) (zip xs ys)
     \<longleftrightarrow> (\<forall>i. i < length xs \<and> i < length ys \<longrightarrow> xs ! i = ys ! i)"
  by (auto simp: list_all_iff set_zip)

lemma items_equal_positions:
  "items_equal (=) ps qs
     \<longleftrightarrow> set (map fst ps) = set (map fst qs)
         \<and> (\<forall>i. i < length ps \<and> i < length qs \<longrightarrow> snd (ps ! i) = snd (qs ! i))"
proof -
  have "(\<forall>i. i < length (map snd ps) \<and> i < length (map snd qs)
              \<longrightarrow> map snd ps ! i = map snd qs ! i)
        \<longleftrightarrow> (\<forall>i. i < length ps \<and> i < length qs \<longrightarrow> snd (ps ! i) = snd (qs ! i))"
    by auto
  then show ?thesis
    unfolding items_equal_def zip_all_equal by simp
qed

text \<open>
  C7, amended. For two flows whose other compared attributes are equal (the remaining
  attributes, the names and the components), the comparator judges the flows equal exactly
  when the two \<^verbatim>\<open>parameters\<close> mappings have the same key set and, position by position in
  the insertion order of each mapping, equal values. For OrderedDicts, whose keys are
  distinct, that is: the same key set and the same sequence of values. In particular the
  flows are judged equal when the mappings hold the same keys in the same insertion order and
  equal values under every key.
\<close>

theorem parameters_equal_by_position:
  assumes "remaining_dict f = remaining_dict g" and "get_name f = get_name g"
    and "items_equal OpenMLFlow_eq (components f) (components g)"
  shows "(OpenMLFlow_eq f g \<longleftrightarrow>
            set (map fst (parameters f)) = set (map fst (parameters g))
            \<and> (\<forall>i. i < length (parameters f) \<and> i < length (parameters g)
                   \<longrightarrow> snd (parameters f ! i) = snd (parameters g ! i)))
         \<and> (distinct (map fst (parameters f)) \<and> distinct (map fst (parameters g)) \<longrightarrow>
              (OpenMLFlow_eq f g \<longleftrightarrow>
                 set (map fst (parameters f)) = set (map fst (parameters g))
                 \<and> map snd (parameters f) = map snd (parameters g)))
         \<and> (distinct (map fst (parameters f))
             \<and> map fst (parameters f) = map fst (parameters g)
             \<and> (\<forall>k. map_of (parameters f) k = map_of (parameters g) k) \<longrightarrow> OpenMLFlow_eq f g)"
proof -
  have eq: "OpenMLFlow_eq f g = items_equal (=) (parameters f) (parameters g)"
    using assms by (subst OpenMLFlow_eq.simps) (simp add: Let_def)
  have same: "items_equal (=) (parameters f) (parameters g)"
    if "distinct (map fst (parameters f))" and "map fst (parameters f) = map fst (parameters g)"
      and "\<forall>k. map_of (parameters f) k = map_of (parameters g) k"
  proof -
    have "parameters f = parameters g"
      using that by (intro same_items) auto
    then show ?thesis
      by (simp add: items_equal_same)
  qed
  show ?thesis
    unfolding eq
    using items_equal_positions [of "parameters f" "parameters g"]
      items_equal_values [of "parameters f" "parameters g"] same
    by blast
qed

lemma others_equal:
  "remaining_dict (flow_with_parameters ps) = remaining_dict (flow_with_parameters qs)"
  "get_name (flow_with_parameters ps) = get_name (flow_with_parameters qs)"
  "items_equal OpenMLFlow_eq (components (flow_with_parameters ps))
     (components (flow_with_parameters qs))"
  by (simp_all add: remaining_dict_eq get_name_def items_equal_def flow_with_parameters_def)

theorem parameters_equal_by_position_witness:
  "OpenMLFlow_eq ab_same_flow ba_same_flow \<and> OpenMLFlow_eq ab_flow ba_swapped_flow
   \<and> \<not> OpenMLFlow_eq ab_flow ba_flow"
proof -
  have d: "distinct (map fst (parameters (flow_with_parameters [(PStr ''a'', x), (PStr ''b'', y)])))"
    "distinct (map fst (parameters (flow_with_parameters [(PStr ''b'', x), (PStr ''a'', y)])))"
    for x y
    by (simp_all add: flow_with_parameters_def)
  have "OpenMLFlow_eq ab_same_flow ba_same_flow"
    using parameters_equal_by_position [OF others_equal, of
        "[(PStr ''a'', PStr ''1''), (PStr ''b'', PStr ''1'')]"
        "[(PStr ''b'', PStr ''1''), (PStr ''a'', PStr ''1'')]"] d
    by (auto simp: ab_same_flow_def ba_same_flow_def flow_with_parameters_def)
  moreover have "OpenMLFlow_eq ab_flow ba_swapped_flow"
    using parameters_equal_by_position [OF others_equal, of
        "[(PStr ''a'', PStr ''1''), (PStr ''b'', PStr ''2'')]"
        "[(PStr ''b'', PStr ''1''), (PStr ''a'', PStr ''2'')]"] d
    by (auto simp: ab_flow_def ba_swapped_flow_def flow_with_parameters_def)
  moreover have "\<not> OpenMLFlow_eq ab_flow ba_flow"
    using parameters_equal_by_position [OF others_equal, of
        "[(PStr ''a'', PStr ''1''), (PStr ''b'', PStr ''2'')]"
        "[(PStr ''b'', PStr ''2''), (PStr ''a'', PStr ''1'')]"] d
    by (auto simp: ab_flow_def ba_flow_def flow_with_parameters_def)
  ultimately show ?thesis by simp
qed

section \<open>Properties of serialization\<close>

lemma check_items_ValueError: "check_items xs = Some e \<Longrightarrow> exception_of e = ValueError"
  by (induction xs rule: check_items.induct) (auto split: if_splits)

lemma check_items_None:
  "check_items xs = None \<longleftrightarrow>
     (\<forall>(k, v) \<in> set xs. (k = PNone \<or> is_string k) \<and> (v = PNone \<or> is_string v))"
  by (induction xs rule: check_items.induct) auto

lemma param_dict_Inr:
  assumes "param_dict meta k v = Inr b"
  shows "getitem b (PStr ''oml:name'') = Inr k \<and> getitem b (PStr ''oml:default_value'') = Inr v
         \<and> (k = PNone \<or> is_string k) \<and> (v = PNone \<or> is_string v)
         \<and> (\<exists>info. map_of meta k = Some (PDict info)
              \<and> (get info (PStr ''data_type'') = PNone \<or> is_string (get info (PStr ''data_type'')))
              \<and> (get info (PStr ''description'') = PNone
                  \<or> is_string (get info (PStr ''description''))))"
proof -
  from assms obtain info x where info: "map_of meta k = Some info"
    and x: "getitem info (PStr ''data_type'') = Inr x"
    by (auto simp: param_dict_def lookup_def split: sum.splits option.splits)
  then obtain items where items: "info = PDict items"
    by (cases info) auto
  from assms info items show ?thesis
    by (auto simp: param_dict_def Let_def lookup_def get_def set_if_not_None_def check_items_None
             split: sum.splits option.splits if_splits)
qed

lemma param_dict_Inl:
  assumes "param_dict meta k v = Inl e" and "map_of meta k = Some (PDict info)"
    and "contains info (PStr ''data_type'')" and "contains info (PStr ''description'')"
  shows "exception_of e = ValueError"
proof -
  from assms have "\<exists>xs. check_items xs = Some e"
    by (auto simp: param_dict_def Let_def lookup_def contains_def simp del: check_items.simps
             split: sum.splits option.splits)
  then show ?thesis
    by (auto dest: check_items_ValueError)
qed

lemma flow_parameters_Inr:
  "flow_parameters meta ps = Inr blocks \<Longrightarrow>
     map (\<lambda>b. getitem b (PStr ''oml:name'')) blocks = map (\<lambda>(k, v). Inr k) ps
     \<and> map (\<lambda>b. getitem b (PStr ''oml:default_value'')) blocks = map (\<lambda>(k, v). Inr v) ps
     \<and> (\<forall>(k, v) \<in> set ps.
          (k = PNone \<or> is_string k) \<and> (v = PNone \<or> is_string v)
          \<and> (\<exists>info. map_of meta k = Some (PDict info)
               \<and> (get info (PStr ''data_type'') = PNone
                   \<or> is_string (get info (PStr ''data_type'')))
               \<and> (get info (PStr ''description'') = PNone
                   \<or> is_string (get info (PStr ''description'')))))"
proof (induction meta ps arbitrary: blocks rule: flow_parameters.induct)
  case (1 meta)
  then show ?case by simp
next
  case (2 meta key default_value rest)
  from "2.prems" obtain b bs where b: "param_dict meta key default_value = Inr b"
    and bs: "flow_parameters meta rest = Inr bs" and blocks: "blocks = b # bs"
    by (auto split: sum.splits)
  from "2.IH" [OF b bs] param_dict_Inr [OF b] blocks show ?case
    by simp
qed

lemma flow_parameters_Inl:
  assumes "flow_parameters meta ps = Inl e"
    and "\<forall>(k, v) \<in> set ps. \<exists>info. map_of meta k = Some (PDict info)
            \<and> contains info (PStr ''data_type'') \<and> contains info (PStr ''description'')"
  shows "exception_of e = ValueError"
  using assms
proof (induction meta ps rule: flow_parameters.induct)
  case (1 meta)
  then show ?case by simp
next
  case (2 meta key default_value rest)
  show ?case
  proof (cases "param_dict meta key default_value")
    case (Inl e')
    with "2.prems" have "e' = e" by simp
    with Inl "2.prems"(2) show ?thesis
      by (auto dest: param_dict_Inl)
  next
    case (Inr b)
    with "2.prems" have "flow_parameters meta rest = Inl e"
      by (auto split: sum.splits)
    with "2.IH" [OF Inr] "2.prems"(2) show ?thesis by simp
  qed
qed

lemma to_dict_parameters:
  "to_dict f = Inr doc \<Longrightarrow>
     \<exists>fields blocks. doc = PDict [(PStr ''oml:flow'', PDict fields)]
       \<and> map_of fields (PStr ''oml:parameter'') = Some (PList blocks)
       \<and> flow_parameters (parameters_meta_info f) (parameters f) = Inr blocks"
  by (cases f) (auto simp: set_if_not_None_def split: sum.splits)

lemma to_dict_Inl:
  "flow_parameters (parameters_meta_info f) (parameters f) = Inl e \<Longrightarrow> to_dict f = Inl e"
  by (cases f) simp


lemma param_dict_serializable:
  "serializable_parameter meta (k, v) \<Longrightarrow> param_dict meta k v = Inr (parameter_block meta (k, v))"
  by (auto simp: serializable_parameter_def param_dict_def parameter_block_def meta_info_of_def
        Let_def lookup_def get_def contains_def set_if_not_None_def string_or_None_def
        split: option.splits pyval.splits)

lemma param_dict_block:
  assumes "param_dict meta k v = Inr b"
  shows "serializable_parameter meta (k, v) \<and> b = parameter_block meta (k, v)"
proof -
  from assms obtain info x where info: "map_of meta k = Some info"
    and x: "getitem info (PStr ''data_type'') = Inr x"
    by (auto simp: param_dict_def lookup_def split: sum.splits option.splits)
  then obtain items where items: "info = PDict items"
    by (cases info) auto
  from assms info items show ?thesis
    by (auto simp: param_dict_def Let_def lookup_def get_def contains_def set_if_not_None_def
          check_items_None serializable_parameter_def parameter_block_def meta_info_of_def
          string_or_None_def
          split: sum.splits option.splits if_splits)
qed

lemma flow_parameters_serializable:
  "list_all (serializable_parameter meta) ps \<Longrightarrow>
     flow_parameters meta ps = Inr (map (parameter_block meta) ps)"
  by (induction meta ps rule: flow_parameters.induct) (auto simp: param_dict_serializable)

lemma flow_parameters_blocks:
  "flow_parameters meta ps = Inr blocks \<Longrightarrow>
     list_all (serializable_parameter meta) ps \<and> blocks = map (parameter_block meta) ps"
proof (induction meta ps arbitrary: blocks rule: flow_parameters.induct)
  case (1 meta)
  then show ?case by simp
next
  case (2 meta key default_value rest)
  from "2.prems" obtain b bs where b: "param_dict meta key default_value = Inr b"
    and bs: "flow_parameters meta rest = Inr bs" and blocks: "blocks = b # bs"
    by (auto split: sum.splits)
  from "2.IH" [OF b bs] param_dict_block [OF b] blocks show ?case
    by simp
qed

lemma sequence_Inr:
  "(\<exists>ys. sequence (map g xs) = Inr ys) \<longleftrightarrow> (\<forall>x \<in> set xs. \<exists>y. g x = Inr y)"
proof (induction xs)
  case Nil
  then show ?case by simp
next
  case (Cons x xs)
  show ?case
  proof (cases "g x")
    case (Inl e)
    then show ?thesis by auto
  next
    case (Inr y)
    with Cons show ?thesis by (auto split: sum.splits)
  qed
qed

lemma component_dict_Inr:
  "(\<exists>b. component_dict key (to_dict c) = Inr b) \<longleftrightarrow> (\<exists>d. to_dict c = Inr d)"
proof
  assume "\<exists>b. component_dict key (to_dict c) = Inr b"
  then show "\<exists>d. to_dict c = Inr d"
    by (auto simp: component_dict_def split: sum.splits)
next
  assume "\<exists>d. to_dict c = Inr d"
  then obtain d where d: "to_dict c = Inr d" by blast
  then obtain fields where "d = PDict [(PStr ''oml:flow'', PDict fields)]"
    using to_dict_parameters by blast
  with d show "\<exists>b. component_dict key (to_dict c) = Inr b"
    by (simp add: component_dict_def lookup_def)
qed

lemma to_dict_returns_iff: "(\<exists>doc. to_dict f = Inr doc) \<longleftrightarrow> serializable f"
proof (induction f)
  case (OpenMLFlow n d m cs ps ms ev tg lg dp bu bf bm up ud fid v)
  have comps: "(\<exists>ys. sequence (map (\<lambda>(key, component). component_dict key (to_dict component)) cs) = Inr ys)
                 \<longleftrightarrow> list_all (\<lambda>(key, component). serializable component) cs"
  proof -
    have "(\<exists>y. (case x of (key, component) \<Rightarrow> component_dict key (to_dict component)) = Inr y)
            \<longleftrightarrow> (case x of (key, component) \<Rightarrow> serializable component)"
      if "x \<in> set cs" for x
    proof -
      obtain key c where x: "x = (key, c)" by (cases x)
      with that have "(\<exists>doc. to_dict c = Inr doc) \<longleftrightarrow> serializable c"
        using OpenMLFlow.IH by force
      with x show ?thesis
        by (simp add: component_dict_Inr)
    qed
    then show ?thesis
      unfolding sequence_Inr list_all_iff by blast
  qed
  have pars: "(\<exists>blocks. flow_parameters ms ps = Inr blocks) \<longleftrightarrow> list_all (serializable_parameter ms) ps"
    using flow_parameters_serializable [of ms ps] flow_parameters_blocks [of ms ps] by auto
  show ?case
  proof
    assume "\<exists>doc. to_dict (OpenMLFlow n d m cs ps ms ev tg lg dp bu bf bm up ud fid v) = Inr doc"
    then have "(\<exists>blocks. flow_parameters ms ps = Inr blocks)
        \<and> (\<exists>ys. sequence (map (\<lambda>(key, component). component_dict key (to_dict component)) cs) = Inr ys)"
      by (auto split: sum.splits)
    with comps pars show "serializable (OpenMLFlow n d m cs ps ms ev tg lg dp bu bf bm up ud fid v)"
      by simp
  next
    assume "serializable (OpenMLFlow n d m cs ps ms ev tg lg dp bu bf bm up ud fid v)"
    with comps pars obtain blocks ys where "flow_parameters ms ps = Inr blocks"
      and "sequence (map (\<lambda>(key, component). component_dict key (to_dict component)) cs) = Inr ys"
      by auto
    then show "\<exists>doc. to_dict (OpenMLFlow n d m cs ps ms ev tg lg dp bu bf bm up ud fid v) = Inr doc"
      by simp
  qed
qed

text \<open>
  C8. \<^verbatim>\<open>_to_dict\<close> returns a document exactly for the flows that meet the data model
  (\<^verbatim>\<open>serializable\<close>), and in the document it returns the field \<^verbatim>\<open>oml:parameter\<close> is the
  list of the blocks that the specification prescribes for the items of \<^verbatim>\<open>parameters\<close>,
  one block per item in the insertion order of the mapping: the names and the default values
  of the blocks are the keys and the values of the items, in that order.
\<close>

theorem to_dict_parameter_order:
  "((\<exists>doc. to_dict f = Inr doc) \<longleftrightarrow> serializable f)
   \<and> (to_dict f = Inr doc \<longrightarrow>
        (\<exists>fields blocks. doc = PDict [(PStr ''oml:flow'', PDict fields)]
           \<and> map_of fields (PStr ''oml:parameter'') = Some (PList blocks)
           \<and> blocks = map (parameter_block (parameters_meta_info f)) (parameters f)
           \<and> length blocks = length (parameters f)
           \<and> map (\<lambda>b. getitem b (PStr ''oml:name'')) blocks
               = map (\<lambda>(k, v). Inr k) (parameters f)
           \<and> map (\<lambda>b. getitem b (PStr ''oml:default_value'')) blocks
               = map (\<lambda>(k, v). Inr v) (parameters f)))"
proof (intro conjI impI)
  show "(\<exists>doc. to_dict f = Inr doc) \<longleftrightarrow> serializable f"
    by (rule to_dict_returns_iff)
next
  assume "to_dict f = Inr doc"
  then obtain fields blocks where doc: "doc = PDict [(PStr ''oml:flow'', PDict fields)]"
    and p: "map_of fields (PStr ''oml:parameter'') = Some (PList blocks)"
    and b: "flow_parameters (parameters_meta_info f) (parameters f) = Inr blocks"
    using to_dict_parameters by blast
  from flow_parameters_Inr [OF b]
  have names: "map (\<lambda>b. getitem b (PStr ''oml:name'')) blocks = map (\<lambda>(k, v). Inr k) (parameters f)"
    and vals: "map (\<lambda>b. getitem b (PStr ''oml:default_value'')) blocks
                 = map (\<lambda>(k, v). Inr v) (parameters f)"
    by simp_all
  from names have len: "length blocks = length (parameters f)"
    by (rule map_eq_imp_length_eq)
  from flow_parameters_blocks [OF b]
  have "blocks = map (parameter_block (parameters_meta_info f)) (parameters f)"
    by simp
  with doc p names vals len
  show "\<exists>fields blocks. doc = PDict [(PStr ''oml:flow'', PDict fields)]
           \<and> map_of fields (PStr ''oml:parameter'') = Some (PList blocks)
           \<and> blocks = map (parameter_block (parameters_meta_info f)) (parameters f)
           \<and> length blocks = length (parameters f)
           \<and> map (\<lambda>b. getitem b (PStr ''oml:name'')) blocks
               = map (\<lambda>(k, v). Inr k) (parameters f)
           \<and> map (\<lambda>b. getitem b (PStr ''oml:default_value'')) blocks
               = map (\<lambda>(k, v). Inr v) (parameters f)"
    by blast
qed

lemma bac_serializable: "serializable bac_flow"
  by (simp add: bac_flow_def no_meta_def serializable_parameter_def string_or_None_def
        contains_def get_def)

theorem to_dict_parameter_order_witness:
  "\<exists>fields blocks. to_dict bac_flow = Inr (PDict [(PStr ''oml:flow'', PDict fields)])
     \<and> map_of fields (PStr ''oml:parameter'') = Some (PList blocks)
     \<and> map (\<lambda>b. getitem b (PStr ''oml:name'')) blocks
         = [Inr (PStr ''b''), Inr (PStr ''a''), Inr (PStr ''c'')]
     \<and> blocks = [PDict [(PStr ''oml:name'', PStr ''b''), (PStr ''oml:default_value'', PStr ''2'')],
                 PDict [(PStr ''oml:name'', PStr ''a''), (PStr ''oml:default_value'', PStr ''1'')],
                 PDict [(PStr ''oml:name'', PStr ''c''), (PStr ''oml:default_value'', PStr ''3'')]]"
proof -
  from to_dict_parameter_order [of bac_flow] bac_serializable
  obtain doc where doc: "to_dict bac_flow = Inr doc" by blast
  have "map (\<lambda>(k, v). Inr k) (parameters bac_flow)
          = [Inr (PStr ''b''), Inr (PStr ''a''), Inr (PStr ''c'') :: error + pyval]"
    by (simp add: bac_flow_def)
  moreover have "map (parameter_block (parameters_meta_info bac_flow)) (parameters bac_flow)
      = [PDict [(PStr ''oml:name'', PStr ''b''), (PStr ''oml:default_value'', PStr ''2'')],
         PDict [(PStr ''oml:name'', PStr ''a''), (PStr ''oml:default_value'', PStr ''1'')],
         PDict [(PStr ''oml:name'', PStr ''c''), (PStr ''oml:default_value'', PStr ''3'')]]"
    by (simp add: bac_flow_def no_meta_def parameter_block_def meta_info_of_def get_def)
  ultimately show ?thesis
    using to_dict_parameter_order [of bac_flow doc] doc by auto
qed

text \<open>
  C10 fails for the value \<^verbatim>\<open>None\<close>, which is not a string and passes the check: the flow
  whose only parameter has the default value \<^verbatim>\<open>None\<close> is serialized. And where the
  meta-information of a parameter has no \<^verbatim>\<open>data_type\<close> entry, the error raised for a
  parameter with a non-string value is the KeyError of the lookup, not a ValueError.
\<close>

theorem none_value_counterexample:
  "(PStr ''a'', PNone) \<in> set (parameters none_value_flow) \<and> \<not> is_string PNone
   \<and> (\<exists>doc. to_dict none_value_flow = Inr doc)
   \<and> (PStr ''a'', PInt 1) \<in> set (parameters no_data_type_flow) \<and> \<not> is_string (PInt 1)
   \<and> to_dict no_data_type_flow = Inl (MissingKey (PStr ''data_type''))
   \<and> exception_of (MissingKey (PStr ''data_type'')) = KeyError"
  by (simp add: none_value_flow_def no_data_type_flow_def no_meta_def param_dict_def lookup_def
        set_if_not_None_def)

text \<open>
  C10, amended. A flow with a parameter whose name, default value, data type or description
  is neither \<^verbatim>\<open>None\<close> nor a string is not serialized: \<^verbatim>\<open>_to_dict\<close> raises and returns no
  document. The error is a ValueError when every parameter has a meta-information
  dictionary with the entries \<^verbatim>\<open>data_type\<close> and \<^verbatim>\<open>description\<close> (otherwise the lookup of
  line 179 may raise first).
\<close>

theorem to_dict_checks_strings:
  assumes "(k, v) \<in> set (parameters f)"
    and "(k \<noteq> PNone \<and> \<not> is_string k) \<or> (v \<noteq> PNone \<and> \<not> is_string v)
         \<or> (\<exists>info x. map_of (parameters_meta_info f) k = Some (PDict info)
              \<and> (x = get info (PStr ''data_type'') \<or> x = get info (PStr ''description''))
              \<and> x \<noteq> PNone \<and> \<not> is_string x)"
  shows "(\<exists>e. to_dict f = Inl e)
         \<and> ((\<forall>(k', v') \<in> set (parameters f).
               \<exists>info. map_of (parameters_meta_info f) k' = Some (PDict info)
                 \<and> contains info (PStr ''data_type'') \<and> contains info (PStr ''description''))
            \<longrightarrow> (\<exists>e. to_dict f = Inl e \<and> exception_of e = ValueError))"
proof -
  have "\<exists>e. flow_parameters (parameters_meta_info f) (parameters f) = Inl e"
  proof (cases "flow_parameters (parameters_meta_info f) (parameters f)")
    case (Inl e)
    then show ?thesis by simp
  next
    case (Inr blocks)
    from flow_parameters_Inr [OF Inr] assms(1)
    have "(k = PNone \<or> is_string k) \<and> (v = PNone \<or> is_string v)
          \<and> (\<exists>info. map_of (parameters_meta_info f) k = Some (PDict info)
               \<and> (get info (PStr ''data_type'') = PNone
                   \<or> is_string (get info (PStr ''data_type'')))
               \<and> (get info (PStr ''description'') = PNone
                   \<or> is_string (get info (PStr ''description''))))"
      by fast
    with assms(2) show ?thesis by auto
  qed
  then obtain e where e: "flow_parameters (parameters_meta_info f) (parameters f) = Inl e"
    by blast
  then have "to_dict f = Inl e" by (rule to_dict_Inl)
  with flow_parameters_Inl [OF e] show ?thesis by blast
qed

theorem to_dict_checks_strings_witness:
  "\<exists>e. to_dict int_value_flow = Inl e \<and> exception_of e = ValueError"
proof -
  have "(PStr ''a'', PInt 1) \<in> set (parameters int_value_flow)"
    by (simp add: int_value_flow_def)
  moreover have "\<forall>(k', v') \<in> set (parameters int_value_flow).
      \<exists>info. map_of (parameters_meta_info int_value_flow) k' = Some (PDict info)
        \<and> contains info (PStr ''data_type'') \<and> contains info (PStr ''description'')"
    by (simp add: int_value_flow_def no_meta_def contains_def)
  ultimately show ?thesis
    using to_dict_checks_strings [of "PStr ''a''" "PInt 1" int_value_flow] by simp
qed

end
